theory Spec2Isabelle
  imports Main "HOL-Library.AList"
begin

section \<open>The dataset manager of \<^verbatim>\<open>ingestion_program/datasets.py\<close>\<close>

text \<open>
  The class \<^verbatim>\<open>Data\<close> keeps a train partition and a test partition in two
  name-mangled attributes, reads them from a directory tree and hands the test partition
  to the external \<^verbatim>\<open>systematics\<close> module. The model below is a state-passing
  embedding: every method is a function from the object's state to an outcome (an
  exception or a value), the state after the call and the list of observable effects
  (file reads, calls into \<^verbatim>\<open>systematics\<close>) of the call. Console output is not
  modelled.
\<close>

subsection \<open>Exceptions, effects and the sequencing of statements\<close>

datatype error =
    FileNotFoundError string
  | ValueError string
  | JSONDecodeError
  | ArrowInvalid string
  | KeyError string
  | TypeError
  | AttributeError string
  | CollaboratorError string

datatype event =
    Open_file string
  | Read_parquet string
  | Bootstrap_call
  | Systematics_dataset_call
  | Systematics_call

type_synonym ('a, 's) prog = "'s \<Rightarrow> (error + 'a) \<times> 's \<times> event list"

definition outcome :: "(error + 'a) \<times> 's \<times> event list \<Rightarrow> error + 'a" where
  "outcome r = fst r"

definition state_after :: "(error + 'a) \<times> 's \<times> event list \<Rightarrow> 's" where
  "state_after r = fst (snd r)"

definition events :: "(error + 'a) \<times> 's \<times> event list \<Rightarrow> event list" where
  "events r = snd (snd r)"

definition ret :: "'a \<Rightarrow> ('a, 's) prog" where
  "ret x s = (Inr x, s, [])"

definition raise :: "error \<Rightarrow> ('a, 's) prog" where
  "raise e s = (Inl e, s, [])"

definition emit :: "event \<Rightarrow> (unit, 's) prog" where
  "emit ev s = (Inr (), s, [ev])"

text \<open>
  \<open>then_do m f\<close> runs statement \<open>m\<close> and then the rest \<open>f\<close> of the body; an exception in
  \<open>m\<close> ends the body there, with the state and the effects reached so far.
\<close>

definition then_do :: "('a, 's) prog \<Rightarrow> ('a \<Rightarrow> ('b, 's) prog) \<Rightarrow> ('b, 's) prog" where
  "then_do m f s =
     (case m s of
        (Inl e, s', l) \<Rightarrow> (Inl e, s', l)
      | (Inr x, s', l) \<Rightarrow> (case f x s' of (r, s'', l') \<Rightarrow> (r, s'', l @ l')))"

definition lift_result :: "error + 'a \<Rightarrow> ('a, 's) prog" where
  "lift_result r s = (r, s, [])"

subsection \<open>Values read from disk\<close>

text \<open>
  What \<^verbatim>\<open>json.load\<close> returns: Python values built from dictionaries, lists, strings,
  numbers, booleans and \<^verbatim>\<open>None\<close>. A dictionary is an association list looked up with
  \<open>map_of\<close>. \<open>'n\<close> is the type of floating-point numbers, left abstract.
\<close>

datatype 'n json =
    JNull
  | JBool bool
  | JInt int
  | JFloat 'n
  | JStr string
  | JArr "'n json list"
  | JObj "(string \<times> 'n json) list"

text \<open>
  The subscription \<^verbatim>\<open>v[k]\<close> with a string key: a dictionary without the key raises
  KeyError, every other value raises TypeError.
\<close>

fun getitem :: "'n json \<Rightarrow> string \<Rightarrow> error + 'n json" where
  "getitem (JObj kvs) k = (case map_of kvs k of None \<Rightarrow> Inl (KeyError k) | Some v \<Rightarrow> Inr v)"
| "getitem _ k = Inl TypeError"

text \<open>
  \<^verbatim>\<open>os.path.join\<close> on a POSIX system: a component that starts with the separator
  replaces what came before, an empty or separator-terminated prefix takes no extra
  separator.
\<close>

definition join2 :: "string \<Rightarrow> string \<Rightarrow> string" where
  "join2 path b =
     (if b \<noteq> [] \<and> hd b = CHR ''/'' then b
      else if path = [] \<or> last path = CHR ''/'' then path @ b
      else path @ ''/'' @ b)"

definition os_path_join :: "string \<Rightarrow> string list \<Rightarrow> string" where
  "os_path_join a ps = foldl join2 a ps"

text \<open>
  \<^verbatim>\<open>str.splitlines\<close> on the text that \<^verbatim>\<open>f.read()\<close> returns. The line boundaries
  among the 8-bit characters are LF, CR, CR LF, VT, FF, FS, GS, RS and NEL; a final
  boundary does not open an empty last line.
\<close>

definition is_linebreak :: "char \<Rightarrow> bool" where
  "is_linebreak c \<longleftrightarrow>
     c \<in> {CHR 0x0A, CHR 0x0D, CHR 0x0B, CHR 0x0C, CHR 0x1C, CHR 0x1D, CHR 0x1E, CHR 0x85}"

fun splitlines_from :: "string \<Rightarrow> string \<Rightarrow> string list" where
  "splitlines_from cur [] = (if cur = [] then [] else [rev cur])"
| "splitlines_from cur [c] =
     (if is_linebreak c then [rev cur] else [rev (c # cur)])"
| "splitlines_from cur (c # d # cs) =
     (if c = CHR 0x0D \<and> d = CHR 0x0A then rev cur # splitlines_from [] cs
      else if is_linebreak c then rev cur # splitlines_from [] (d # cs)
      else splitlines_from (c # cur) (d # cs))"

definition splitlines :: "string \<Rightarrow> string list" where
  "splitlines s = splitlines_from [] s"

text \<open>
  \<^verbatim>\<open>np.array(lines, dtype=float)\<close>: every line is converted with the float parser
  \<open>pf\<close>; the first line that is not a number raises ValueError.
\<close>

fun float_array :: "(string \<Rightarrow> 'n option) \<Rightarrow> string list \<Rightarrow> error + 'n list" where
  "float_array pf [] = Inr []"
| "float_array pf (l # ls) =
     (case pf l of
        None \<Rightarrow> Inl (ValueError l)
      | Some x \<Rightarrow> (case float_array pf ls of Inl e \<Rightarrow> Inl e | Inr xs \<Rightarrow> Inr (x # xs)))"

subsection \<open>The object and the libraries it calls\<close>

text \<open>
  The file system at the time of a call maps a path to the content of the file there;
  a path outside its domain does not exist.
\<close>

type_synonym fs = "string \<rightharpoonup> string"

text \<open>
  The dictionary that \<^verbatim>\<open>load_train_set\<close> builds, with \<open>'t\<close> the type of data frames.
\<close>

record ('t, 'n) train_dict =
  data :: 't
  labels :: "'n list"
  settings :: "'n json"
  weights :: "'n list"
  detailed_labels :: "string list"

type_synonym 't test_dict = "(string \<times> 't) list"

text \<open>
  An attribute of a Python object either is bound to a value or does not exist; the
  values of the two partition attributes are \<^verbatim>\<open>None\<close> or a dictionary.
\<close>

datatype 'a attr = Unset | Bound 'a

record ('t, 'n) Data =
  train_set :: "('t, 'n) train_dict option attr"
  test_set :: "'t test_dict option"
  input_dir :: string
  ground_truth_mus :: "'n json attr"

text \<open>
  The parameters of the physics calls are grouped: the three shifts
  \<^verbatim>\<open>(tes, jes, soft_met)\<close> and the three optional scales
  \<^verbatim>\<open>(ttbar_scale, diboson_scale, bkg_scale)\<close>.
\<close>

type_synonym 'n shifts = "'n \<times> 'n \<times> 'n"
type_synonym 'n scales = "'n option \<times> 'n option \<times> 'n option"

text \<open>
  The code outside the file is a parameter of the model: the parsers of pandas, numpy
  and json, and the three functions of the \<^verbatim>\<open>systematics\<close> module with \<open>'r\<close> the type
  of what they return. \<^verbatim>\<open>get_bootstraped_dataset\<close> also sees the state of the random
  number generator (a \<open>nat\<close>), which the method does not control. A collaborator receives
  the stored dictionary itself, not a copy, so the model also asks in which state a call
  leaves the dictionary it was given (\<open>bootstrap_leaves\<close>, \<open>systematics_leaves\<close>).
\<close>

record ('t, 'n, 'r) lib =
  parse_parquet :: "string \<Rightarrow> 't option"
  parse_float :: "string \<Rightarrow> 'n option"
  json_loads :: "string \<Rightarrow> 'n json option"
  empty_frame :: 't
  get_bootstraped_dataset ::
    "nat \<Rightarrow> 't test_dict option \<Rightarrow> 'n \<Rightarrow> 'n scales \<Rightarrow> int \<Rightarrow> error + 'r"
  bootstrap_leaves ::
    "nat \<Rightarrow> 't test_dict \<Rightarrow> 'n \<Rightarrow> 'n scales \<Rightarrow> int \<Rightarrow> 't test_dict"
  get_systematics_dataset :: "'r \<Rightarrow> 'n shifts \<Rightarrow> error + 'r"
  systematics ::
    "('t, 'n) train_dict option \<Rightarrow> 'n shifts \<Rightarrow> 'n scales \<Rightarrow> error + 'r"
  systematics_leaves ::
    "('t, 'n) train_dict \<Rightarrow> 'n shifts \<Rightarrow> 'n scales \<Rightarrow> ('t, 'n) train_dict"

subsection \<open>Attribute access and file reads\<close>

text \<open>
  Inside the class, \<^verbatim>\<open>self.__train_set\<close> is the attribute
  \<^verbatim>\<open>_Data__train_set\<close>; reading or deleting an attribute that does not exist raises
  AttributeError. The attributes \<^verbatim>\<open>__test_set\<close> and \<^verbatim>\<open>input_dir\<close> are bound by
  the constructor and no method deletes them.
\<close>

definition read_train_attr ::
    "(('t, 'n) train_dict option, ('t, 'n) Data) prog" where
  "read_train_attr d =
     (case train_set d of
        Unset \<Rightarrow> raise (AttributeError ''_Data__train_set'') d
      | Bound v \<Rightarrow> ret v d)"

definition write_train_attr ::
    "('t, 'n) train_dict option \<Rightarrow> (unit, ('t, 'n) Data) prog" where
  "write_train_attr v d = (Inr (), d\<lparr>train_set := Bound v\<rparr>, [])"

definition del_train_attr :: "(unit, ('t, 'n) Data) prog" where
  "del_train_attr d =
     (case train_set d of
        Unset \<Rightarrow> raise (AttributeError ''_Data__train_set'') d
      | Bound v \<Rightarrow> (Inr (), d\<lparr>train_set := Unset\<rparr>, []))"

definition read_test_attr :: "('t test_dict option, ('t, 'n) Data) prog" where
  "read_test_attr d = ret (test_set d) d"

definition write_test_attr :: "'t test_dict option \<Rightarrow> (unit, ('t, 'n) Data) prog" where
  "write_test_attr v d = (Inr (), d\<lparr>test_set := v\<rparr>, [])"

definition read_input_dir :: "(string, ('t, 'n) Data) prog" where
  "read_input_dir d = ret (input_dir d) d"

definition write_ground_truth_mus :: "'n json \<Rightarrow> (unit, ('t, 'n) Data) prog" where
  "write_ground_truth_mus v d = (Inr (), d\<lparr>ground_truth_mus := Bound v\<rparr>, [])"

text \<open>
  \<^verbatim>\<open>open(path)\<close> followed by \<^verbatim>\<open>f.read()\<close>, and \<^verbatim>\<open>pd.read_parquet(path)\<close>: both
  raise FileNotFoundError on a path that does not exist; the parquet reader raises
  ArrowInvalid on content that is not a parquet file.
\<close>

definition open_read :: "fs \<Rightarrow> string \<Rightarrow> (string, 's) prog" where
  "open_read files path =
     then_do (emit (Open_file path)) (\<lambda>_.
       case files path of
         None \<Rightarrow> raise (FileNotFoundError path)
       | Some content \<Rightarrow> ret content)"

definition read_frame :: "('t, 'n, 'r) lib \<Rightarrow> fs \<Rightarrow> string \<Rightarrow> error + 't" where
  "read_frame L files path =
     (case files path of
        None \<Rightarrow> Inl (FileNotFoundError path)
      | Some content \<Rightarrow>
          (case parse_parquet L content of
             None \<Rightarrow> Inl (ArrowInvalid path)
           | Some frame \<Rightarrow> Inr frame))"

definition read_parquet :: "('t, 'n, 'r) lib \<Rightarrow> fs \<Rightarrow> string \<Rightarrow> ('t, 's) prog" where
  "read_parquet L files path =
     then_do (emit (Read_parquet path)) (\<lambda>_. lift_result (read_frame L files path))"

definition read_float_lines :: "('t, 'n, 'r) lib \<Rightarrow> fs \<Rightarrow> string \<Rightarrow> ('n list, 's) prog" where
  "read_float_lines L files path =
     then_do (open_read files path) (\<lambda>content.
       lift_result (float_array (parse_float L) (splitlines content)))"

definition read_json :: "('t, 'n, 'r) lib \<Rightarrow> fs \<Rightarrow> string \<Rightarrow> ('n json, 's) prog" where
  "read_json L files path =
     then_do (open_read files path) (\<lambda>content.
       case json_loads L content of
         None \<Rightarrow> raise JSONDecodeError
       | Some v \<Rightarrow> ret v)"

subsection \<open>The methods of \<^verbatim>\<open>Data\<close>\<close>

definition Data_init :: "string \<Rightarrow> ('t, 'n) Data" where
  "Data_init dir =
     \<lparr>train_set = Bound None, test_set = None, input_dir = dir, ground_truth_mus = Unset\<rparr>"

text \<open>
  \<^verbatim>\<open>load_train_set\<close>: the four text files are read into locals and the parquet file
  is read while the dictionary is built (\<open>read_train_dict\<close>, lines 64 to 86), the
  dictionary is assigned, and only then the settings file of the test partition is read
  for \<^verbatim>\<open>ground_truth_mus\<close> (\<open>read_ground_truth\<close>, lines 92 to 98).
\<close>

definition train_data_file :: "string \<Rightarrow> string" where
  "train_data_file dir = os_path_join dir [''train'', ''data'', ''data.parquet'']"

definition train_labels_file :: "string \<Rightarrow> string" where
  "train_labels_file dir = os_path_join dir [''train'', ''labels'', ''data.labels'']"

definition train_settings_file :: "string \<Rightarrow> string" where
  "train_settings_file dir = os_path_join dir [''train'', ''settings'', ''data.json'']"

definition train_weights_file :: "string \<Rightarrow> string" where
  "train_weights_file dir = os_path_join dir [''train'', ''weights'', ''data.weights'']"

definition train_detailed_labels_file :: "string \<Rightarrow> string" where
  "train_detailed_labels_file dir =
     os_path_join dir [''train'', ''detailed_labels'', ''data.detailed_labels'']"

definition test_settings_file :: "string \<Rightarrow> string" where
  "test_settings_file dir = os_path_join dir [''test'', ''settings'', ''data.json'']"

definition read_train_dict ::
    "('t, 'n, 'r) lib \<Rightarrow> fs \<Rightarrow> string \<Rightarrow> (('t, 'n) train_dict, 's) prog" where
  "read_train_dict L files dir =
     then_do (read_float_lines L files (train_labels_file dir)) (\<lambda>train_labels.
     then_do (read_json L files (train_settings_file dir)) (\<lambda>train_settings.
     then_do (read_float_lines L files (train_weights_file dir)) (\<lambda>train_weights.
     then_do (open_read files (train_detailed_labels_file dir)) (\<lambda>content.
     then_do (read_parquet L files (train_data_file dir)) (\<lambda>frame.
       ret \<lparr>data = frame, labels = train_labels, settings = train_settings,
            weights = train_weights, detailed_labels = splitlines content\<rparr>)))))"

definition read_ground_truth ::
    "('t, 'n, 'r) lib \<Rightarrow> fs \<Rightarrow> string \<Rightarrow> ('n json, 's) prog" where
  "read_ground_truth L files dir =
     then_do (read_json L files (test_settings_file dir)) (\<lambda>test_settings.
       lift_result (getitem test_settings ''ground_truth_mus''))"

definition load_train_set ::
    "('t, 'n, 'r) lib \<Rightarrow> fs \<Rightarrow> (unit, ('t, 'n) Data) prog" where
  "load_train_set L files =
     then_do read_input_dir (\<lambda>dir.
     then_do (read_train_dict L files dir) (\<lambda>new_dict.
     then_do (write_train_attr (Some new_dict)) (\<lambda>_.
     then_do (read_ground_truth L files dir) (\<lambda>mus.
       write_ground_truth_mus mus))))"

text \<open>
  \<^verbatim>\<open>load_test_set\<close>: a local dictionary with the four keys, each bound to an empty
  frame, is filled key by key in the order of the keys; the attribute is assigned after
  the loop.
\<close>

fun load_test_loop ::
    "('t, 'n, 'r) lib \<Rightarrow> fs \<Rightarrow> string \<Rightarrow> string list \<Rightarrow> 't test_dict \<Rightarrow>
     ('t test_dict, 's) prog" where
  "load_test_loop L files test_data_dir [] test_dict = ret test_dict"
| "load_test_loop L files test_data_dir (key # keys) test_dict =
     then_do (read_parquet L files (os_path_join test_data_dir [key @ ''_data.parquet'']))
       (\<lambda>frame. load_test_loop L files test_data_dir keys (AList.update key frame test_dict))"

definition test_keys :: "string list" where
  "test_keys = [''ztautau'', ''diboson'', ''ttbar'', ''htautau'']"

definition test_data_path :: "string \<Rightarrow> string \<Rightarrow> string" where
  "test_data_path dir key =
     os_path_join (os_path_join dir [''test'', ''data'']) [key @ ''_data.parquet'']"

definition load_test_set ::
    "('t, 'n, 'r) lib \<Rightarrow> fs \<Rightarrow> (unit, ('t, 'n) Data) prog" where
  "load_test_set L files =
     then_do read_input_dir (\<lambda>dir.
     then_do (load_test_loop L files (os_path_join dir [''test'', ''data''])
                test_keys (map (\<lambda>key. (key, empty_frame L)) test_keys)) (\<lambda>test_dict.
       write_test_attr (Some test_dict)))"

text \<open>
  The two calls into \<^verbatim>\<open>systematics\<close> that receive a stored dictionary: the call is an
  observable effect, its outcome is the collaborator's, and the stored dictionary is
  afterwards what the collaborator left of it.
\<close>

definition call_bootstrap ::
    "('t, 'n, 'r) lib \<Rightarrow> nat \<Rightarrow> 't test_dict option \<Rightarrow> 'n \<Rightarrow> 'n scales \<Rightarrow> int \<Rightarrow>
     ('r, ('t, 'n) Data) prog" where
  "call_bootstrap L rng arg mu sc seed d =
     (get_bootstraped_dataset L rng arg mu sc seed,
      d\<lparr>test_set := map_option (\<lambda>t. bootstrap_leaves L rng t mu sc seed) (test_set d)\<rparr>,
      [Bootstrap_call])"

definition call_systematics_dataset ::
    "('t, 'n, 'r) lib \<Rightarrow> 'r \<Rightarrow> 'n shifts \<Rightarrow> ('r, 's) prog" where
  "call_systematics_dataset L pseudo sh d =
     (get_systematics_dataset L pseudo sh, d, [Systematics_dataset_call])"

definition call_systematics ::
    "('t, 'n, 'r) lib \<Rightarrow> ('t, 'n) train_dict option \<Rightarrow> 'n shifts \<Rightarrow> 'n scales \<Rightarrow>
     ('r, ('t, 'n) Data) prog" where
  "call_systematics L arg sh sc d =
     (systematics L arg sh sc,
      d\<lparr>train_set :=
          (case train_set d of
             Bound (Some t) \<Rightarrow> Bound (Some (systematics_leaves L t sh sc))
           | other \<Rightarrow> other)\<rparr>,
      [Systematics_call])"

definition generate_psuedo_exp_data ::
    "('t, 'n, 'r) lib \<Rightarrow> nat \<Rightarrow> 'n \<Rightarrow> 'n shifts \<Rightarrow> 'n scales \<Rightarrow> int \<Rightarrow>
     ('r, ('t, 'n) Data) prog" where
  "generate_psuedo_exp_data L rng set_mu sh sc seed =
     then_do read_test_attr (\<lambda>stored.
     then_do (call_bootstrap L rng stored set_mu sc seed) (\<lambda>pesudo_exp_data.
       call_systematics_dataset L pesudo_exp_data sh))"

definition get_train_set ::
    "(('t, 'n) train_dict option, ('t, 'n) Data) prog" where
  "get_train_set = read_train_attr"

definition get_test_set :: "('t test_dict option, ('t, 'n) Data) prog" where
  "get_test_set = read_test_attr"

definition delete_train_set :: "(unit, ('t, 'n) Data) prog" where
  "delete_train_set = del_train_attr"

definition get_syst_train_set ::
    "('t, 'n, 'r) lib \<Rightarrow> fs \<Rightarrow> 'n shifts \<Rightarrow> 'n scales \<Rightarrow> ('r, ('t, 'n) Data) prog" where
  "get_syst_train_set L files sh sc =
     then_do read_train_attr (\<lambda>current.
     then_do (case current of None \<Rightarrow> load_train_set L files | Some _ \<Rightarrow> ret ()) (\<lambda>_.
     then_do read_train_attr (\<lambda>stored.
       call_systematics L stored sh sc)))"

subsection \<open>Sequences of calls\<close>

text \<open>
  A caller's use of one object: a list of method calls, each with its arguments and with
  the file system (and, for \<^verbatim>\<open>generate_psuedo_exp_data\<close>, the generator state) it
  meets. \<open>step\<close> is the state a call leaves, \<open>run\<close> the state a list of calls leaves, and
  \<open>loads_train\<close> says that the call ran \<^verbatim>\<open>load_train_set\<close>, by itself or through
  \<^verbatim>\<open>get_syst_train_set\<close>, and that it returned normally.
\<close>

datatype 'n call =
    Load_train fs
  | Load_test fs
  | Generate nat 'n "'n shifts" "'n scales" int
  | Get_train
  | Get_test
  | Delete_train
  | Get_syst_train fs "'n shifts" "'n scales"

fun step :: "('t, 'n, 'r) lib \<Rightarrow> 'n call \<Rightarrow> ('t, 'n) Data \<Rightarrow> ('t, 'n) Data" where
  "step L (Load_train files) d = state_after (load_train_set L files d)"
| "step L (Load_test files) d = state_after (load_test_set L files d)"
| "step L (Generate rng set_mu sh sc seed) d =
     state_after (generate_psuedo_exp_data L rng set_mu sh sc seed d)"
| "step L Get_train d = state_after (get_train_set d)"
| "step L Get_test d = state_after (get_test_set d)"
| "step L Delete_train d = state_after (delete_train_set d)"
| "step L (Get_syst_train files sh sc) d = state_after (get_syst_train_set L files sh sc d)"

fun loads_train :: "('t, 'n, 'r) lib \<Rightarrow> 'n call \<Rightarrow> ('t, 'n) Data \<Rightarrow> bool" where
  "loads_train L (Load_train files) d = (\<not> isl (outcome (load_train_set L files d)))"
| "loads_train L (Get_syst_train files sh sc) d =
     (case train_set d of
        Bound None \<Rightarrow> \<not> isl (outcome (load_train_set L files d))
      | _ \<Rightarrow> False)"
| "loads_train L _ d = False"

fun run :: "('t, 'n, 'r) lib \<Rightarrow> 'n call list \<Rightarrow> ('t, 'n) Data \<Rightarrow> ('t, 'n) Data" where
  "run L [] d = d"
| "run L (c # cs) d = run L cs (step L c d)"

fun no_train_load :: "('t, 'n, 'r) lib \<Rightarrow> 'n call list \<Rightarrow> ('t, 'n) Data \<Rightarrow> bool" where
  "no_train_load L [] d = True"
| "no_train_load L (c # cs) d = (\<not> loads_train L c d \<and> no_train_load L cs (step L c d))"

subsection \<open>A small instance to run the model on\<close>

text \<open>
  Frames are the text of their file after the parquet magic number, numbers are
  integers, and the collaborators are simple stand-ins: the bootstrap rejects
  \<^verbatim>\<open>None\<close> and otherwise concatenates the frames, ignoring the generator state; no
  collaborator changes the dictionary it is given.
\<close>

definition demo_lib :: "(string, int, string) lib" where
  "demo_lib =
     \<lparr>parse_parquet = (\<lambda>c. if take 4 c = ''PAR1'' then Some (drop 4 c) else None),
      parse_float = (\<lambda>l. if l = ''0.0'' then Some 0 else if l = ''1.0'' then Some 1 else None),
      json_loads = (\<lambda>c. if c = ''{}'' then Some (JObj [])
                         else if c = ''{mus: 1}'' then Some (JObj [(''ground_truth_mus'', JInt 1)])
                         else None),
      empty_frame = [],
      get_bootstraped_dataset = (\<lambda>rng arg mu sc seed.
         case arg of
           None \<Rightarrow> Inl (CollaboratorError ''NoneType'')
         | Some t \<Rightarrow> Inr (concat (map snd t))),
      bootstrap_leaves = (\<lambda>rng t mu sc seed. t),
      get_systematics_dataset = (\<lambda>pseudo sh. Inr pseudo),
      systematics = (\<lambda>arg sh sc.
         case arg of
           None \<Rightarrow> Inl (CollaboratorError ''NoneType'')
         | Some t \<Rightarrow> Inr (data t)),
      systematics_leaves = (\<lambda>t sh sc. t)\<rparr>"

definition train_files :: "(string \<times> string) list" where
  "train_files =
     [(''d/train/labels/data.labels'', ''1.0'' @ [CHR 0x0A] @ ''0.0''),
      (''d/train/settings/data.json'', ''{}''),
      (''d/train/weights/data.weights'', ''1.0'' @ [CHR 0x0A] @ ''1.0''),
      (''d/train/detailed_labels/data.detailed_labels'', ''htautau'' @ [CHR 0x0A] @ ''ttbar''),
      (''d/train/data/data.parquet'', ''PAR1ab'')]"

definition test_files :: "(string \<times> string) list" where
  "test_files =
     [(''d/test/data/ztautau_data.parquet'', ''PAR1z''),
      (''d/test/data/diboson_data.parquet'', ''PAR1d''),
      (''d/test/data/ttbar_data.parquet'', ''PAR1t''),
      (''d/test/data/htautau_data.parquet'', ''PAR1h'')]"

definition settings_file :: "(string \<times> string) list" where
  "settings_file = [(''d/test/settings/data.json'', ''{mus: 1}'')]"

definition bad_test_files :: "(string \<times> string) list" where
  "bad_test_files = [(''d/test/data/ztautau_data.parquet'', ''not parquet'')]"

definition train_files_no_weights :: "(string \<times> string) list" where
  "train_files_no_weights =
     [(''d/train/labels/data.labels'', ''1.0'' @ [CHR 0x0A] @ ''0.0''),
      (''d/train/settings/data.json'', ''{}''),
      (''d/train/detailed_labels/data.detailed_labels'', ''htautau'' @ [CHR 0x0A] @ ''ttbar''),
      (''d/train/data/data.parquet'', ''PAR1ab'')]"

text \<open>
  A second instance with two directory trees in one file system. The settings of the
  train partition under \<^verbatim>\<open>d\<close> carry a \<^verbatim>\<open>ground_truth_mus\<close> of their own, the settings
  of the test partition under \<^verbatim>\<open>d\<close> carry a second key before it, and the tree under
  \<^verbatim>\<open>e\<close> carries other values throughout.
\<close>

definition settings_lib :: "(string, int, string) lib" where
  "settings_lib =
     demo_lib\<lparr>json_loads := (\<lambda>c.
        if c = ''{}'' then Some (JObj [])
        else if c = ''{other: 5, mus: 1}''
          then Some (JObj [(''other'', JInt 5), (''ground_truth_mus'', JInt 1)])
        else if c = ''{mus: 2}'' then Some (JObj [(''ground_truth_mus'', JInt 2)])
        else if c = ''{mus: 3}'' then Some (JObj [(''ground_truth_mus'', JInt 3)])
        else None)\<rparr>"

definition two_dirs :: "(string \<times> string) list" where
  "two_dirs =
     [(''d/train/labels/data.labels'', ''1.0'' @ [CHR 0x0A] @ ''0.0''),
      (''d/train/settings/data.json'', ''{mus: 3}''),
      (''d/train/weights/data.weights'', ''1.0'' @ [CHR 0x0A] @ ''1.0''),
      (''d/train/detailed_labels/data.detailed_labels'', ''htautau'' @ [CHR 0x0A] @ ''ttbar''),
      (''d/train/data/data.parquet'', ''PAR1ab''),
      (''d/test/settings/data.json'', ''{other: 5, mus: 1}''),
      (''e/train/labels/data.labels'', ''0.0''),
      (''e/train/settings/data.json'', ''{}''),
      (''e/train/weights/data.weights'', ''1.0''),
      (''e/train/detailed_labels/data.detailed_labels'', ''ztautau''),
      (''e/train/data/data.parquet'', ''PAR1cd''),
      (''e/test/settings/data.json'', ''{mus: 2}'')]"

definition demo_data :: "(string, int) Data" where
  "demo_data = Data_init ''d''"

section \<open>Properties\<close>


subsection \<open>Sequencing, and the reads that leave the state alone\<close>

lemma then_do_Inr_parts:
  assumes "m s = (Inr x, s', l)"
  shows "outcome (then_do m f s) = outcome (f x s')"
    and "state_after (then_do m f s) = state_after (f x s')"
    and "events (then_do m f s) = l @ events (f x s')"
  using assms
  by (simp_all add: then_do_def outcome_def state_after_def events_def split: prod.splits)

lemma then_do_Inl_parts:
  assumes "m s = (Inl e, s', l)"
  shows "outcome (then_do m f s) = Inl e"
    and "state_after (then_do m f s) = s'"
    and "events (then_do m f s) = l"
  using assms
  by (simp_all add: then_do_def outcome_def state_after_def events_def)

lemma then_do_keeps:
  assumes "\<And>s. state_after (m s) = s" and "\<And>x s. state_after (f x s) = s"
  shows "state_after (then_do m f s) = s"
proof -
  obtain r s' l where ms: "m s = (r, s', l)" by (cases "m s") auto
  with assms(1)[of s] have s': "s' = s" by (simp add: state_after_def)
  show ?thesis
  proof (cases r)
    case (Inl e)
    with ms s' show ?thesis by (simp add: then_do_def state_after_def)
  next
    case (Inr x)
    obtain r2 s2 l2 where fx: "f x s = (r2, s2, l2)" by (cases "f x s") auto
    with assms(2)[of x s] have "s2 = s" by (simp add: state_after_def)
    with ms s' Inr fx show ?thesis by (simp add: then_do_def state_after_def)
  qed
qed

lemma ret_keeps: "state_after (ret x s) = s"
  by (simp add: ret_def state_after_def)
lemma raise_keeps: "state_after (raise e s) = s"
  by (simp add: raise_def state_after_def)
lemma emit_keeps: "state_after (emit ev s) = s"
  by (simp add: emit_def state_after_def)
lemma lift_result_keeps: "state_after (lift_result r s) = s"
  by (simp add: lift_result_def state_after_def)

lemma open_read_keeps: "state_after (open_read files p s) = s"
  unfolding open_read_def
  by (rule then_do_keeps) (auto simp: emit_keeps raise_keeps ret_keeps split: option.splits)

lemma read_parquet_keeps: "state_after (read_parquet L files p s) = s"
  unfolding read_parquet_def
  by (rule then_do_keeps) (auto simp: emit_keeps lift_result_keeps)

lemma read_float_lines_keeps: "state_after (read_float_lines L files p s) = s"
  unfolding read_float_lines_def
  by (rule then_do_keeps) (auto simp: open_read_keeps lift_result_keeps)

lemma read_json_keeps: "state_after (read_json L files p s) = s"
  unfolding read_json_def
  by (rule then_do_keeps) (auto simp: open_read_keeps raise_keeps ret_keeps split: option.splits)

lemma read_train_dict_keeps: "state_after (read_train_dict L files dir s) = s"
  unfolding read_train_dict_def
  by (intro then_do_keeps read_float_lines_keeps read_json_keeps open_read_keeps
      read_parquet_keeps ret_keeps)

lemma read_ground_truth_keeps: "state_after (read_ground_truth L files dir s) = s"
  unfolding read_ground_truth_def
  by (intro then_do_keeps read_json_keeps lift_result_keeps)

lemma read_parquet_eq:
  "read_parquet L files p s = (read_frame L files p, s, [Read_parquet p])"
  by (simp add: read_parquet_def then_do_def emit_def lift_result_def)

subsection \<open>\<^verbatim>\<open>load_train_set\<close>: what a failed and a completed read of the train files lead to\<close>

lemma read_ground_truth_any_state:
  "outcome (read_ground_truth L files dir s) = outcome (read_ground_truth L files dir s')"
  by (simp add: read_ground_truth_def read_json_def open_read_def then_do_def emit_def
      raise_def ret_def lift_result_def outcome_def split: option.splits sum.splits)

lemma load_train_set_read_fails:
  assumes "outcome (read_train_dict L files (input_dir d) d) = Inl e"
  shows "outcome (load_train_set L files d) = Inl e"
    and "state_after (load_train_set L files d) = d"
proof -
  obtain l where rd: "read_train_dict L files (input_dir d) d = (Inl e, d, l)"
    using assms read_train_dict_keeps[of L files "input_dir d" d]
    by (cases "read_train_dict L files (input_dir d) d") (auto simp: outcome_def state_after_def)
  have "load_train_set L files d = (Inl e, d, l)"
    by (simp add: load_train_set_def then_do_def read_input_dir_def ret_def rd)
  then show "outcome (load_train_set L files d) = Inl e"
    and "state_after (load_train_set L files d) = d"
    by (simp_all add: outcome_def state_after_def)
qed

lemma load_train_set_read_ok:
  assumes "outcome (read_train_dict L files (input_dir d) d) = Inr t"
  shows "load_train_set L files d =
     (case read_ground_truth L files (input_dir d) (d\<lparr>train_set := Bound (Some t)\<rparr>) of
        (Inl e, s, l') \<Rightarrow>
          (Inl e, d\<lparr>train_set := Bound (Some t)\<rparr>,
           events (read_train_dict L files (input_dir d) d) @ l')
      | (Inr g, s, l') \<Rightarrow>
          (Inr (), d\<lparr>train_set := Bound (Some t), ground_truth_mus := Bound g\<rparr>,
           events (read_train_dict L files (input_dir d) d) @ l'))"
proof -
  obtain l where rd: "read_train_dict L files (input_dir d) d = (Inr t, d, l)"
    using assms read_train_dict_keeps[of L files "input_dir d" d]
    by (cases "read_train_dict L files (input_dir d) d") (auto simp: outcome_def state_after_def)
  let ?d' = "d\<lparr>train_set := Bound (Some t)\<rparr>"
  obtain r l' where rg: "read_ground_truth L files (input_dir d) ?d' = (r, ?d', l')"
    using read_ground_truth_keeps[of L files "input_dir d" ?d']
    by (cases "read_ground_truth L files (input_dir d) ?d'") (auto simp: state_after_def)
  show ?thesis
    by (cases r)
       (simp_all add: load_train_set_def then_do_def read_input_dir_def ret_def rd rg
          write_train_attr_def write_ground_truth_mus_def events_def)
qed

lemma load_train_set_returns:
  assumes "outcome (load_train_set L files d) = Inr ()"
  shows "\<exists>t g. outcome (read_train_dict L files (input_dir d) d) = Inr t \<and>
           outcome (read_ground_truth L files (input_dir d) d) = Inr g \<and>
           state_after (load_train_set L files d) =
             d\<lparr>train_set := Bound (Some t), ground_truth_mus := Bound g\<rparr>"
proof (cases "outcome (read_train_dict L files (input_dir d) d)")
  case (Inl e)
  then have "outcome (load_train_set L files d) = Inl e" by (rule load_train_set_read_fails)
  with assms show ?thesis by simp
next
  case (Inr t)
  let ?d' = "d\<lparr>train_set := Bound (Some t)\<rparr>"
  obtain r s' l' where rg: "read_ground_truth L files (input_dir d) ?d' = (r, s', l')"
    by (cases "read_ground_truth L files (input_dir d) ?d'") auto
  from assms obtain g where g: "r = Inr g"
    unfolding load_train_set_read_ok[OF Inr] rg by (cases r) (auto simp: outcome_def)
  have "outcome (read_ground_truth L files (input_dir d) d) = Inr g"
    using read_ground_truth_any_state[of L files "input_dir d" d ?d'] rg g
    by (simp add: outcome_def)
  moreover have "state_after (load_train_set L files d) =
      d\<lparr>train_set := Bound (Some t), ground_truth_mus := Bound g\<rparr>"
    unfolding load_train_set_read_ok[OF Inr] rg g by (simp add: state_after_def)
  ultimately show ?thesis using Inr by blast
qed

lemma load_train_set_raises_keeps_mus:
  assumes "isl (outcome (load_train_set L files d))"
  shows "ground_truth_mus (state_after (load_train_set L files d)) = ground_truth_mus d"
proof (cases "outcome (read_train_dict L files (input_dir d) d)")
  case (Inl e)
  then have "state_after (load_train_set L files d) = d" by (rule load_train_set_read_fails)
  then show ?thesis by simp
next
  case (Inr t)
  let ?d' = "d\<lparr>train_set := Bound (Some t)\<rparr>"
  obtain r s' l' where rg: "read_ground_truth L files (input_dir d) ?d' = (r, s', l')"
    by (cases "read_ground_truth L files (input_dir d) ?d'") auto
  from assms show ?thesis
    unfolding load_train_set_read_ok[OF Inr] rg
    by (cases r) (auto simp: outcome_def state_after_def)
qed

subsection \<open>The outcome of the reads in terms of the files\<close>

lemma train_paths:
  "train_labels_file dir =
     (if dir = [] \<or> last dir = CHR ''/'' then dir else dir @ ''/'') @ ''train/labels/data.labels''"
  "train_settings_file dir =
     (if dir = [] \<or> last dir = CHR ''/'' then dir else dir @ ''/'') @ ''train/settings/data.json''"
  "train_weights_file dir =
     (if dir = [] \<or> last dir = CHR ''/'' then dir else dir @ ''/'') @ ''train/weights/data.weights''"
  "train_detailed_labels_file dir =
     (if dir = [] \<or> last dir = CHR ''/'' then dir else dir @ ''/'') @
       ''train/detailed_labels/data.detailed_labels''"
  "train_data_file dir =
     (if dir = [] \<or> last dir = CHR ''/'' then dir else dir @ ''/'') @ ''train/data/data.parquet''"
  "test_settings_file dir =
     (if dir = [] \<or> last dir = CHR ''/'' then dir else dir @ ''/'') @ ''test/settings/data.json''"
  by (simp_all add: os_path_join_def join2_def train_data_file_def train_labels_file_def
      train_settings_file_def train_weights_file_def train_detailed_labels_file_def
      test_settings_file_def)

lemma float_array_Inr: "float_array pf ls = Inr xs \<longleftrightarrow> map pf ls = map Some xs"
proof (induction ls arbitrary: xs)
  case Nil
  show ?case by auto
next
  case (Cons l ls)
  show ?case
  proof (cases "pf l")
    case None
    then show ?thesis by (cases xs) auto
  next
    case (Some x)
    show ?thesis
    proof (cases "float_array pf ls")
      case (Inl e)
      with Cons[of "tl xs"] Some show ?thesis by (cases xs) auto
    next
      case (Inr ys)
      with Cons[of ys] Cons[of "tl xs"] Some show ?thesis by (cases xs) auto
    qed
  qed
qed

lemma float_array_isl: "isl (float_array pf ls) \<longleftrightarrow> (\<exists>l\<in>set ls. pf l = None)"
  by (induction ls) (auto split: option.splits sum.splits)

lemma getitem_Inr: "getitem v k = Inr g \<longleftrightarrow> (\<exists>kvs. v = JObj kvs \<and> map_of kvs k = Some g)"
  by (cases v) (auto split: option.splits)

lemma open_read_eq:
  "open_read files p s =
     ((case files p of None \<Rightarrow> Inl (FileNotFoundError p) | Some c \<Rightarrow> Inr c), s, [Open_file p])"
  by (simp add: open_read_def then_do_def emit_def raise_def ret_def split: option.splits)

lemma read_float_lines_eq:
  "read_float_lines L files p s =
     ((case files p of
         None \<Rightarrow> Inl (FileNotFoundError p)
       | Some c \<Rightarrow> float_array (parse_float L) (splitlines c)), s, [Open_file p])"
  by (simp add: read_float_lines_def open_read_eq then_do_def lift_result_def split: option.splits)

lemma read_json_eq:
  "read_json L files p s =
     ((case files p of
         None \<Rightarrow> Inl (FileNotFoundError p)
       | Some c \<Rightarrow> (case json_loads L c of None \<Rightarrow> Inl JSONDecodeError | Some v \<Rightarrow> Inr v)),
      s, [Open_file p])"
  by (simp add: read_json_def open_read_eq then_do_def raise_def ret_def split: option.splits)

lemma read_ground_truth_outcome:
  "outcome (read_ground_truth L files dir s) =
     (case files (test_settings_file dir) of
        None \<Rightarrow> Inl (FileNotFoundError (test_settings_file dir))
      | Some c \<Rightarrow>
          (case json_loads L c of
             None \<Rightarrow> Inl JSONDecodeError
           | Some v \<Rightarrow> getitem v ''ground_truth_mus''))"
  by (simp add: read_ground_truth_def read_json_eq then_do_def lift_result_def outcome_def
      split: option.splits)

lemma read_train_dict_outcome:
  "outcome (read_train_dict L files dir s) =
     (case files (train_labels_file dir) of
        None \<Rightarrow> Inl (FileNotFoundError (train_labels_file dir))
      | Some lc \<Rightarrow>
     (case float_array (parse_float L) (splitlines lc) of
        Inl e \<Rightarrow> Inl e
      | Inr ls \<Rightarrow>
     (case files (train_settings_file dir) of
        None \<Rightarrow> Inl (FileNotFoundError (train_settings_file dir))
      | Some sc \<Rightarrow>
     (case json_loads L sc of
        None \<Rightarrow> Inl JSONDecodeError
      | Some sv \<Rightarrow>
     (case files (train_weights_file dir) of
        None \<Rightarrow> Inl (FileNotFoundError (train_weights_file dir))
      | Some wc \<Rightarrow>
     (case float_array (parse_float L) (splitlines wc) of
        Inl e \<Rightarrow> Inl e
      | Inr ws \<Rightarrow>
     (case files (train_detailed_labels_file dir) of
        None \<Rightarrow> Inl (FileNotFoundError (train_detailed_labels_file dir))
      | Some dc \<Rightarrow>
     (case read_frame L files (train_data_file dir) of
        Inl e \<Rightarrow> Inl e
      | Inr frame \<Rightarrow>
          Inr \<lparr>data = frame, labels = ls, settings = sv, weights = ws,
               detailed_labels = splitlines dc\<rparr>))))))))"
  by (simp add: read_train_dict_def read_float_lines_eq read_json_eq open_read_eq read_parquet_eq
      then_do_def ret_def outcome_def split: option.splits sum.splits)

lemma read_train_dict_unreadable:
  assumes "files (train_labels_file dir) = None \<or>
     (\<exists>c. files (train_labels_file dir) = Some c \<and> (\<exists>l\<in>set (splitlines c). parse_float L l = None)) \<or>
     files (train_settings_file dir) = None \<or>
     (\<exists>c. files (train_settings_file dir) = Some c \<and> json_loads L c = None) \<or>
     files (train_weights_file dir) = None \<or>
     (\<exists>c. files (train_weights_file dir) = Some c \<and> (\<exists>l\<in>set (splitlines c). parse_float L l = None)) \<or>
     files (train_detailed_labels_file dir) = None \<or>
     files (train_data_file dir) = None \<or>
     (\<exists>c. files (train_data_file dir) = Some c \<and> parse_parquet L c = None)"
  shows "isl (outcome (read_train_dict L files dir s))"
proof -
  have fl: "\<And>c xs l. float_array (parse_float L) (splitlines c) = Inr xs \<Longrightarrow>
      l \<in> set (splitlines c) \<Longrightarrow> parse_float L l = None \<Longrightarrow> False"
    using float_array_isl[of "parse_float L"] by (metis sum.disc(2))
  from assms show ?thesis
    unfolding read_train_dict_outcome read_frame_def
    by (auto split: option.splits sum.splits dest: fl)
qed

lemma read_train_dict_readable:
  assumes "files (train_labels_file dir) = Some lc"
    and "map (parse_float L) (splitlines lc) = map Some ls"
    and "files (train_settings_file dir) = Some sc"
    and "json_loads L sc = Some sv"
    and "files (train_weights_file dir) = Some wc"
    and "map (parse_float L) (splitlines wc) = map Some ws"
    and "files (train_detailed_labels_file dir) = Some dc"
    and "files (train_data_file dir) = Some pc"
    and "parse_parquet L pc = Some frame"
  shows "outcome (read_train_dict L files dir s) =
     Inr \<lparr>data = frame, labels = ls, settings = sv, weights = ws,
          detailed_labels = splitlines dc\<rparr>"
  using assms
  by (simp add: read_train_dict_outcome read_frame_def float_array_Inr[symmetric])

lemma read_train_dict_any_state:
  "outcome (read_train_dict L files dir s) = outcome (read_train_dict L files dir s')"
  by (simp add: read_train_dict_outcome)

lemma load_train_set_same_input_dir:
  assumes "input_dir d' = input_dir d"
    and "outcome (load_train_set L files d) = Inr ()"
  shows "outcome (load_train_set L files d') = Inr () \<and>
         ground_truth_mus (state_after (load_train_set L files d')) =
           ground_truth_mus (state_after (load_train_set L files d))"
proof -
  from load_train_set_returns[OF assms(2)] obtain t g where
    t: "outcome (read_train_dict L files (input_dir d) d) = Inr t" and
    g: "outcome (read_ground_truth L files (input_dir d) d) = Inr g" and
    st: "state_after (load_train_set L files d) =
           d\<lparr>train_set := Bound (Some t), ground_truth_mus := Bound g\<rparr>"
    by blast
  have t': "outcome (read_train_dict L files (input_dir d') d') = Inr t"
    using t read_train_dict_any_state[of L files "input_dir d" d' d] by (simp add: assms(1))
  let ?e = "d'\<lparr>train_set := Bound (Some t)\<rparr>"
  have "outcome (read_ground_truth L files (input_dir d') ?e) = Inr g"
    using g read_ground_truth_any_state[of L files "input_dir d" ?e d] by (simp add: assms(1))
  then obtain s' l' where rg: "read_ground_truth L files (input_dir d') ?e = (Inr g, s', l')"
    by (cases "read_ground_truth L files (input_dir d') ?e") (auto simp: outcome_def)
  show ?thesis
    unfolding load_train_set_read_ok[OF t'] rg st
    by (simp add: outcome_def state_after_def)
qed

subsection \<open>\<^verbatim>\<open>load_test_set\<close>: the loop over the four keys\<close>

lemma load_test_loop_keeps:
  "state_after (load_test_loop L files tdd keys acc s) = s"
proof (induction keys arbitrary: acc s)
  case Nil
  show ?case by (simp add: ret_keeps)
next
  case (Cons key keys)
  show ?case
    unfolding load_test_loop.simps
    by (rule then_do_keeps) (simp_all add: read_parquet_keeps Cons.IH)
qed

lemma load_test_loop_fails:
  assumes "i < length keys"
    and "read_frame L files (os_path_join tdd [keys ! i @ ''_data.parquet'']) = Inl e"
    and "\<forall>j<i. \<not> isl (read_frame L files (os_path_join tdd [keys ! j @ ''_data.parquet'']))"
  shows "outcome (load_test_loop L files tdd keys acc s) = Inl e"
  using assms
proof (induction keys arbitrary: i acc)
  case Nil
  then show ?case by simp
next
  case (Cons key keys)
  show ?case
  proof (cases i)
    case 0
    with Cons.prems(2) show ?thesis
      by (simp add: read_parquet_eq then_do_def outcome_def)
  next
    case (Suc k)
    with Cons.prems(3) have "\<not> isl (read_frame L files (os_path_join tdd [key @ ''_data.parquet'']))"
      by auto
    then obtain fr where fr: "read_frame L files (os_path_join tdd [key @ ''_data.parquet'']) = Inr fr"
      by (cases "read_frame L files (os_path_join tdd [key @ ''_data.parquet''])") auto
    have "outcome (load_test_loop L files tdd keys (AList.update key fr acc) s) = Inl e"
    proof (rule Cons.IH)
      show "k < length keys" using Cons.prems(1) Suc by simp
      show "read_frame L files (os_path_join tdd [keys ! k @ ''_data.parquet'']) = Inl e"
        using Cons.prems(2) Suc by simp
      show "\<forall>j<k. \<not> isl (read_frame L files (os_path_join tdd [keys ! j @ ''_data.parquet'']))"
        using Cons.prems(3) Suc by auto
    qed
    moreover have "read_parquet L files (os_path_join tdd [key @ ''_data.parquet'']) s =
        (Inr fr, s, [Read_parquet (os_path_join tdd [key @ ''_data.parquet''])])"
      by (simp add: read_parquet_eq fr)
    ultimately show ?thesis
      by (simp add: then_do_Inr_parts(1))
  qed
qed

lemma load_test_loop_ok:
  assumes "\<forall>key\<in>set keys. read_frame L files (os_path_join tdd [key @ ''_data.parquet'']) = Inr (fr key)"
  shows "outcome (load_test_loop L files tdd keys acc s) =
           Inr (fold (\<lambda>key. AList.update key (fr key)) keys acc)"
  using assms
proof (induction keys arbitrary: acc)
  case Nil
  then show ?case by (simp add: ret_def outcome_def)
next
  case (Cons key keys)
  from Cons.prems have here: "read_frame L files (os_path_join tdd [key @ ''_data.parquet'']) = Inr (fr key)"
    by simp
  from Cons.prems have "outcome (load_test_loop L files tdd keys (AList.update key (fr key) acc) s) =
           Inr (fold (\<lambda>key. AList.update key (fr key)) keys (AList.update key (fr key) acc))"
    by (intro Cons.IH) simp
  moreover have "read_parquet L files (os_path_join tdd [key @ ''_data.parquet'']) s =
      (Inr (fr key), s, [Read_parquet (os_path_join tdd [key @ ''_data.parquet''])])"
    by (simp add: read_parquet_eq here)
  ultimately show ?case
    by (simp add: then_do_Inr_parts(1))
qed

lemma first_failure:
  assumes "\<exists>key\<in>set keys. isl (f key)"
  shows "\<exists>i<length keys. isl (f (keys ! i)) \<and> (\<forall>j<i. \<not> isl (f (keys ! j)))"
proof -
  from assms obtain n where n: "n < length keys" "isl (f (keys ! n))"
    by (auto simp: in_set_conv_nth)
  define i where "i = (LEAST k. k < length keys \<and> isl (f (keys ! k)))"
  have P: "i < length keys \<and> isl (f (keys ! i))"
    unfolding i_def by (rule LeastI[of "\<lambda>k. k < length keys \<and> isl (f (keys ! k))" n]) (use n in simp)
  have "\<forall>j<i. \<not> isl (f (keys ! j))"
  proof (intro allI impI notI)
    fix j assume "j < i" "isl (f (keys ! j))"
    with P have "j < length keys \<and> isl (f (keys ! j))" by simp
    then have "i \<le> j" unfolding i_def by (rule Least_le)
    with \<open>j < i\<close> show False by simp
  qed
  with P show ?thesis by blast
qed

lemma load_test_set_eq:
  "load_test_set L files d =
     (case load_test_loop L files (os_path_join (input_dir d) [''test'', ''data'']) test_keys
             (map (\<lambda>key. (key, empty_frame L)) test_keys) d of
        (Inl e, s, l) \<Rightarrow> (Inl e, s, l)
      | (Inr td, s, l) \<Rightarrow> (Inr (), s\<lparr>test_set := Some td\<rparr>, l))"
  by (simp add: load_test_set_def then_do_def read_input_dir_def ret_def write_test_attr_def
      split: prod.splits sum.splits)

lemma load_test_set_fails:
  assumes "i < length test_keys"
    and "read_frame L files (test_data_path (input_dir d) (test_keys ! i)) = Inl e"
    and "\<forall>j<i. \<not> isl (read_frame L files (test_data_path (input_dir d) (test_keys ! j)))"
  shows "outcome (load_test_set L files d) = Inl e \<and> state_after (load_test_set L files d) = d"
proof -
  let ?loop = "load_test_loop L files (os_path_join (input_dir d) [''test'', ''data'']) test_keys
             (map (\<lambda>key. (key, empty_frame L)) test_keys) d"
  have "outcome ?loop = Inl e"
    using assms unfolding test_data_path_def by (rule load_test_loop_fails)
  moreover have "state_after ?loop = d" by (rule load_test_loop_keeps)
  ultimately show ?thesis
    unfolding load_test_set_eq
    by (cases ?loop) (auto simp: outcome_def state_after_def)
qed

lemma load_test_set_ok:
  assumes "\<forall>key\<in>set test_keys. read_frame L files (test_data_path (input_dir d) key) = Inr (fr key)"
  shows "outcome (load_test_set L files d) = Inr () \<and>
         state_after (load_test_set L files d) =
           d\<lparr>test_set := Some (map (\<lambda>key. (key, fr key)) test_keys)\<rparr>"
proof -
  let ?loop = "load_test_loop L files (os_path_join (input_dir d) [''test'', ''data'']) test_keys
             (map (\<lambda>key. (key, empty_frame L)) test_keys) d"
  have "outcome ?loop = Inr (fold (\<lambda>key. AList.update key (fr key)) test_keys
           (map (\<lambda>key. (key, empty_frame L)) test_keys))"
    using assms unfolding test_data_path_def by (rule load_test_loop_ok)
  also have "fold (\<lambda>key. AList.update key (fr key)) test_keys
           (map (\<lambda>key. (key, empty_frame L)) test_keys) = map (\<lambda>key. (key, fr key)) test_keys"
    by (simp add: test_keys_def)
  finally have "outcome ?loop = Inr (map (\<lambda>key. (key, fr key)) test_keys)" .
  moreover have "state_after ?loop = d" by (rule load_test_loop_keeps)
  ultimately show ?thesis
    unfolding load_test_set_eq
    by (cases ?loop) (auto simp: outcome_def state_after_def)
qed

lemma load_test_set_frame:
  "train_set (state_after (load_test_set L files d)) = train_set d \<and>
   input_dir (state_after (load_test_set L files d)) = input_dir d \<and>
   ground_truth_mus (state_after (load_test_set L files d)) = ground_truth_mus d"
proof -
  let ?loop = "load_test_loop L files (os_path_join (input_dir d) [''test'', ''data'']) test_keys
             (map (\<lambda>key. (key, empty_frame L)) test_keys) d"
  have "state_after ?loop = d" by (rule load_test_loop_keeps)
  then show ?thesis
    unfolding load_test_set_eq
    by (cases ?loop) (auto simp: state_after_def split: sum.splits)
qed

subsection \<open>The three cases of \<^verbatim>\<open>get_syst_train_set\<close>\<close>

lemma get_syst_train_set_deleted:
  assumes "train_set d = Unset"
  shows "get_syst_train_set L files sh sc d = (Inl (AttributeError ''_Data__train_set''), d, [])"
  using assms
  by (simp add: get_syst_train_set_def read_train_attr_def then_do_def raise_def)

lemma get_syst_train_set_loaded:
  assumes "train_set d = Bound (Some t)"
  shows "get_syst_train_set L files sh sc d =
     (systematics L (Some t) sh sc,
      d\<lparr>train_set := Bound (Some (systematics_leaves L t sh sc))\<rparr>,
      [Systematics_call])"
  using assms
  by (simp add: get_syst_train_set_def read_train_attr_def then_do_def ret_def
      call_systematics_def)

lemma get_syst_train_set_absent:
  assumes "train_set d = Bound None"
  shows "get_syst_train_set L files sh sc d =
     then_do (load_train_set L files) (\<lambda>_.
       then_do read_train_attr (\<lambda>stored. call_systematics L stored sh sc)) d"
  using assms
  by (simp add: get_syst_train_set_def read_train_attr_def then_do_def ret_def
      split: prod.splits sum.splits)

subsection \<open>The accessors and \<^verbatim>\<open>delete_train_set\<close> in each state of the train attribute\<close>

lemma get_train_set_bound:
  assumes "train_set d = Bound v"
  shows "get_train_set d = (Inr v, d, [])"
  using assms by (simp add: get_train_set_def read_train_attr_def ret_def)

lemma get_train_set_deleted:
  assumes "train_set d = Unset"
  shows "get_train_set d = (Inl (AttributeError ''_Data__train_set''), d, [])"
  using assms by (simp add: get_train_set_def read_train_attr_def raise_def)

lemma get_test_set_eq: "get_test_set d = (Inr (test_set d), d, [])"
  by (simp add: get_test_set_def read_test_attr_def ret_def)

lemma delete_train_set_bound:
  assumes "train_set d = Bound v"
  shows "delete_train_set d = (Inr (), d\<lparr>train_set := Unset\<rparr>, [])"
  using assms by (simp add: delete_train_set_def del_train_attr_def)

lemma delete_train_set_deleted:
  assumes "train_set d = Unset"
  shows "delete_train_set d = (Inl (AttributeError ''_Data__train_set''), d, [])"
  using assms by (simp add: delete_train_set_def del_train_attr_def raise_def)

lemma delete_train_set_second_call:
  "outcome (delete_train_set (state_after (delete_train_set d))) =
     Inl (AttributeError ''_Data__train_set'')"
  by (cases "train_set d")
     (simp_all add: delete_train_set_bound delete_train_set_deleted outcome_def state_after_def)

subsection \<open>Sequences of calls that load no train partition\<close>

lemma step_keeps_mus:
  assumes "\<not> loads_train L c d"
  shows "ground_truth_mus (step L c d) = ground_truth_mus d"
proof (cases c)
  case (Load_train files)
  with assms show ?thesis by (simp add: load_train_set_raises_keeps_mus)
next
  case (Load_test files)
  then show ?thesis by (simp add: load_test_set_frame)
next
  case (Generate rng set_mu sh sc seed)
  then show ?thesis
    by (simp add: generate_psuedo_exp_data_def call_bootstrap_def call_systematics_dataset_def
        read_test_attr_def then_do_def ret_def state_after_def split: sum.splits)
next
  case Get_train
  then show ?thesis
    by (simp add: get_train_set_def read_train_attr_def raise_def ret_def state_after_def
        split: attr.splits)
next
  case Get_test
  then show ?thesis
    by (simp add: get_test_set_def read_test_attr_def ret_def state_after_def)
next
  case Delete_train
  then show ?thesis
    by (simp add: delete_train_set_def del_train_attr_def raise_def state_after_def
        split: attr.splits)
next
  case (Get_syst_train files sh sc)
  show ?thesis
  proof (cases "train_set d")
    case Unset
    then show ?thesis
      by (simp add: Get_syst_train get_syst_train_set_deleted state_after_def)
  next
    case (Bound v)
    show ?thesis
    proof (cases v)
      case None
      with Bound assms Get_syst_train
      have raised: "isl (outcome (load_train_set L files d))" by simp
      then obtain e s' l where ld: "load_train_set L files d = (Inl e, s', l)"
        by (cases "load_train_set L files d") (auto simp: outcome_def isl_def)
      have "state_after (get_syst_train_set L files sh sc d) =
          state_after (load_train_set L files d)"
        using Bound None
        by (simp add: get_syst_train_set_absent then_do_def ld state_after_def)
      with raised show ?thesis
        by (simp add: Get_syst_train load_train_set_raises_keeps_mus)
    next
      case (Some t)
      with Bound show ?thesis
        by (simp add: Get_syst_train get_syst_train_set_loaded state_after_def)
    qed
  qed
qed

lemma run_keeps_mus:
  assumes "no_train_load L cs d"
  shows "ground_truth_mus (run L cs d) = ground_truth_mus d"
  using assms
proof (induction cs arbitrary: d)
  case Nil
  show ?case by simp
next
  case (Cons c cs)
  then have "ground_truth_mus (run L cs (step L c d)) = ground_truth_mus (step L c d)"
    by simp
  with Cons.prems show ?case by (simp add: step_keeps_mus)
qed

subsection \<open>Unfolding the model on concrete inputs\<close>

lemmas prog_defs = then_do_def ret_def raise_def emit_def lift_result_def
  outcome_def state_after_def events_def

lemmas attr_defs = read_train_attr_def write_train_attr_def del_train_attr_def
  read_test_attr_def write_test_attr_def read_input_dir_def write_ground_truth_mus_def

lemmas path_defs = os_path_join_def join2_def train_data_file_def train_labels_file_def
  train_settings_file_def train_weights_file_def train_detailed_labels_file_def
  test_settings_file_def test_data_path_def test_keys_def

lemmas read_defs = open_read_def read_frame_def read_parquet_def read_float_lines_def
  read_json_def splitlines_def is_linebreak_def read_train_dict_def read_ground_truth_def

lemmas method_defs = Data_init_def load_train_set_def load_test_set_def call_bootstrap_def
  call_systematics_dataset_def call_systematics_def generate_psuedo_exp_data_def
  get_train_set_def get_test_set_def delete_train_set_def get_syst_train_set_def

lemmas demo_defs = demo_lib_def train_files_def test_files_def settings_file_def
  demo_data_def bad_test_files_def

lemmas demo2_defs = train_files_no_weights_def settings_lib_def two_dirs_def

subsection \<open>Claim C1: failure atomicity of \<^verbatim>\<open>load_train_set\<close>\<close>

text \<open>
  C1 (as stated): whenever \<^verbatim>\<open>load_train_set\<close> raises, the train partition and the cached
  ground-truth parameters are what they were before the call. This fails: in a directory
  that holds the five train files and no \<^verbatim>\<open>test/settings/data.json\<close>, the call on a
  fresh manager raises, and the train attribute is afterwards bound to the new dictionary
  instead of \<^verbatim>\<open>None\<close>.
\<close>

theorem load_train_set_not_atomic:
  "isl (outcome (load_train_set demo_lib (map_of train_files) demo_data)) \<and>
   train_set (state_after (load_train_set demo_lib (map_of train_files) demo_data)) \<noteq>
     train_set demo_data"
  by (simp add: prog_defs attr_defs path_defs read_defs method_defs demo_defs)

text \<open>
  C1 (amended): \<^verbatim>\<open>load_train_set\<close> is atomic with respect to the five train files
  under the input directory. If one of them is absent, or a line of the labels or weights
  file is not a number, or the train settings are not JSON, or the data file is not
  parquet, the call raises and leaves the whole state of the manager as it was. If all
  five are present and parse, the dictionary built from them is installed as the train
  partition; the ground-truth parameters are then replaced, and the call returns, exactly
  when \<^verbatim>\<open>test/settings/data.json\<close> is present and parses to a dictionary with the key
  \<^verbatim>\<open>ground_truth_mus\<close>; otherwise the call raises the error of that read (the file is
  missing, is not JSON, lacks the key, or is not a dictionary) with the new dictionary
  installed and the ground-truth parameters as before. The paths are written out, with
  \<open>root\<close> the input directory followed by a separator unless it is empty or ends in one.
\<close>

theorem load_train_set_atomic_in_train_files:
  fixes L :: "('t, 'n, 'r) lib" and d :: "('t, 'n) Data"
  defines "root \<equiv>
     (if input_dir d = [] \<or> last (input_dir d) = CHR ''/'' then input_dir d
      else input_dir d @ ''/'')"
  shows
  "((files (root @ ''train/labels/data.labels'') = None \<or>
     (\<exists>c. files (root @ ''train/labels/data.labels'') = Some c \<and>
          (\<exists>l\<in>set (splitlines c). parse_float L l = None)) \<or>
     files (root @ ''train/settings/data.json'') = None \<or>
     (\<exists>c. files (root @ ''train/settings/data.json'') = Some c \<and> json_loads L c = None) \<or>
     files (root @ ''train/weights/data.weights'') = None \<or>
     (\<exists>c. files (root @ ''train/weights/data.weights'') = Some c \<and>
          (\<exists>l\<in>set (splitlines c). parse_float L l = None)) \<or>
     files (root @ ''train/detailed_labels/data.detailed_labels'') = None \<or>
     files (root @ ''train/data/data.parquet'') = None \<or>
     (\<exists>c. files (root @ ''train/data/data.parquet'') = Some c \<and> parse_parquet L c = None)) \<longrightarrow>
      isl (outcome (load_train_set L files d)) \<and>
      state_after (load_train_set L files d) = d) \<and>
   (files (root @ ''train/labels/data.labels'') = Some lc \<and>
    map (parse_float L) (splitlines lc) = map Some ls \<and>
    files (root @ ''train/settings/data.json'') = Some sc \<and>
    json_loads L sc = Some sv \<and>
    files (root @ ''train/weights/data.weights'') = Some wc \<and>
    map (parse_float L) (splitlines wc) = map Some ws \<and>
    files (root @ ''train/detailed_labels/data.detailed_labels'') = Some dc \<and>
    files (root @ ''train/data/data.parquet'') = Some pc \<and>
    parse_parquet L pc = Some frame \<longrightarrow>
      (files (root @ ''test/settings/data.json'') = Some tc \<and>
       json_loads L tc = Some (JObj kvs) \<and>
       map_of kvs ''ground_truth_mus'' = Some g \<longrightarrow>
         outcome (load_train_set L files d) = Inr () \<and>
         state_after (load_train_set L files d) =
           d\<lparr>train_set := Bound (Some
                \<lparr>data = frame, labels = ls, settings = sv, weights = ws,
                 detailed_labels = splitlines dc\<rparr>),
             ground_truth_mus := Bound g\<rparr>) \<and>
      (\<not> (\<exists>c kvs' g'. files (root @ ''test/settings/data.json'') = Some c \<and>
             json_loads L c = Some (JObj kvs') \<and>
             map_of kvs' ''ground_truth_mus'' = Some g') \<longrightarrow>
         outcome (load_train_set L files d) =
           Inl (case files (root @ ''test/settings/data.json'') of
                  None \<Rightarrow> FileNotFoundError (root @ ''test/settings/data.json'')
                | Some c \<Rightarrow>
                    (case json_loads L c of
                       None \<Rightarrow> JSONDecodeError
                     | Some (JObj kvs') \<Rightarrow> KeyError ''ground_truth_mus''
                     | Some _ \<Rightarrow> TypeError)) \<and>
         state_after (load_train_set L files d) =
           d\<lparr>train_set := Bound (Some
                \<lparr>data = frame, labels = ls, settings = sv, weights = ws,
                 detailed_labels = splitlines dc\<rparr>)\<rparr>))"
proof -
  have paths:
    "train_labels_file (input_dir d) = root @ ''train/labels/data.labels''"
    "train_settings_file (input_dir d) = root @ ''train/settings/data.json''"
    "train_weights_file (input_dir d) = root @ ''train/weights/data.weights''"
    "train_detailed_labels_file (input_dir d) = root @ ''train/detailed_labels/data.detailed_labels''"
    "train_data_file (input_dir d) = root @ ''train/data/data.parquet''"
    "test_settings_file (input_dir d) = root @ ''test/settings/data.json''"
    unfolding root_def by (simp_all only: train_paths)
  show ?thesis
  proof (intro conjI impI)
    assume bad: "files (root @ ''train/labels/data.labels'') = None \<or>
     (\<exists>c. files (root @ ''train/labels/data.labels'') = Some c \<and>
          (\<exists>l\<in>set (splitlines c). parse_float L l = None)) \<or>
     files (root @ ''train/settings/data.json'') = None \<or>
     (\<exists>c. files (root @ ''train/settings/data.json'') = Some c \<and> json_loads L c = None) \<or>
     files (root @ ''train/weights/data.weights'') = None \<or>
     (\<exists>c. files (root @ ''train/weights/data.weights'') = Some c \<and>
          (\<exists>l\<in>set (splitlines c). parse_float L l = None)) \<or>
     files (root @ ''train/detailed_labels/data.detailed_labels'') = None \<or>
     files (root @ ''train/data/data.parquet'') = None \<or>
     (\<exists>c. files (root @ ''train/data/data.parquet'') = Some c \<and> parse_parquet L c = None)"
    have "isl (outcome (read_train_dict L files (input_dir d) d))"
      by (rule read_train_dict_unreadable) (use bad in \<open>simp only: paths\<close>)
    then obtain e where e: "outcome (read_train_dict L files (input_dir d) d) = Inl e"
      by (cases "outcome (read_train_dict L files (input_dir d) d)") auto
    from load_train_set_read_fails[OF e]
    show "isl (outcome (load_train_set L files d))"
      and "state_after (load_train_set L files d) = d"
      by simp_all
  next
    assume good: "files (root @ ''train/labels/data.labels'') = Some lc \<and>
      map (parse_float L) (splitlines lc) = map Some ls \<and>
      files (root @ ''train/settings/data.json'') = Some sc \<and>
      json_loads L sc = Some sv \<and>
      files (root @ ''train/weights/data.weights'') = Some wc \<and>
      map (parse_float L) (splitlines wc) = map Some ws \<and>
      files (root @ ''train/detailed_labels/data.detailed_labels'') = Some dc \<and>
      files (root @ ''train/data/data.parquet'') = Some pc \<and>
      parse_parquet L pc = Some frame"
    let ?t = "\<lparr>data = frame, labels = ls, settings = sv, weights = ws,
                 detailed_labels = splitlines dc\<rparr>"
    let ?d' = "d\<lparr>train_set := Bound (Some ?t)\<rparr>"
    from good have present:
      "files (train_labels_file (input_dir d)) = Some lc"
      "map (parse_float L) (splitlines lc) = map Some ls"
      "files (train_settings_file (input_dir d)) = Some sc"
      "json_loads L sc = Some sv"
      "files (train_weights_file (input_dir d)) = Some wc"
      "map (parse_float L) (splitlines wc) = map Some ws"
      "files (train_detailed_labels_file (input_dir d)) = Some dc"
      "files (train_data_file (input_dir d)) = Some pc"
      "parse_parquet L pc = Some frame"
      unfolding paths by blast+
    have ok: "outcome (read_train_dict L files (input_dir d) d) = Inr ?t"
      by (rule read_train_dict_readable[OF present])
    obtain r s' l' where rg: "read_ground_truth L files (input_dir d) ?d' = (r, s', l')"
      by (cases "read_ground_truth L files (input_dir d) ?d'") auto
    have r: "r = (case files (root @ ''test/settings/data.json'') of
        None \<Rightarrow> Inl (FileNotFoundError (root @ ''test/settings/data.json''))
      | Some c \<Rightarrow>
          (case json_loads L c of
             None \<Rightarrow> Inl JSONDecodeError
           | Some v \<Rightarrow> getitem v ''ground_truth_mus''))"
      using read_ground_truth_outcome[of L files "input_dir d" ?d'] rg
      by (simp add: outcome_def paths split: option.splits)
    {
      assume "files (root @ ''test/settings/data.json'') = Some tc \<and>
        json_loads L tc = Some (JObj kvs) \<and> map_of kvs ''ground_truth_mus'' = Some g"
      then have "r = Inr g" by (simp add: r)
      then show "outcome (load_train_set L files d) = Inr ()"
        and "state_after (load_train_set L files d) = ?d'\<lparr>ground_truth_mus := Bound g\<rparr>"
        unfolding load_train_set_read_ok[OF ok] rg
        by (simp_all add: outcome_def state_after_def)
    }
    {
      assume no: "\<not> (\<exists>c kvs' g'. files (root @ ''test/settings/data.json'') = Some c \<and>
             json_loads L c = Some (JObj kvs') \<and> map_of kvs' ''ground_truth_mus'' = Some g')"
      let ?e = "case files (root @ ''test/settings/data.json'') of
                  None \<Rightarrow> FileNotFoundError (root @ ''test/settings/data.json'')
                | Some c \<Rightarrow>
                    (case json_loads L c of
                       None \<Rightarrow> JSONDecodeError
                     | Some (JObj kvs') \<Rightarrow> KeyError ''ground_truth_mus''
                     | Some _ \<Rightarrow> TypeError)"
      have "r = Inl ?e"
      proof (cases "files (root @ ''test/settings/data.json'')")
        case None
        then show ?thesis by (simp add: r)
      next
        case (Some c)
        show ?thesis
        proof (cases "json_loads L c")
          case None
          with Some show ?thesis by (simp add: r)
        next
          case (Some v)
          note v = this
          show ?thesis
          proof (cases v)
            case (JObj kvs')
            with \<open>files (root @ ''test/settings/data.json'') = Some c\<close> v no
            have "map_of kvs' ''ground_truth_mus'' = None"
              by (cases "map_of kvs' ''ground_truth_mus''") auto
            with \<open>files (root @ ''test/settings/data.json'') = Some c\<close> v JObj
            show ?thesis by (simp add: r)
          qed (use \<open>files (root @ ''test/settings/data.json'') = Some c\<close> v in
                \<open>simp_all add: r\<close>)
        qed
      qed
      then show "outcome (load_train_set L files d) = Inl ?e"
        and "state_after (load_train_set L files d) = ?d'"
        unfolding load_train_set_read_ok[OF ok] rg
        by (simp_all add: outcome_def state_after_def)
    }
  qed
qed

theorem load_train_set_atomic_in_train_files_witness:
  "isl (outcome (load_train_set demo_lib (map_of train_files_no_weights) demo_data)) \<and>
   state_after (load_train_set demo_lib (map_of train_files_no_weights) demo_data) = demo_data \<and>
   outcome (load_train_set demo_lib (map_of (train_files @ settings_file)) demo_data) = Inr () \<and>
   state_after (load_train_set demo_lib (map_of (train_files @ settings_file)) demo_data) =
     demo_data\<lparr>train_set := Bound (Some
         \<lparr>data = ''ab'', labels = [1, 0], settings = JObj [], weights = [1, 1],
          detailed_labels = [''htautau'', ''ttbar'']\<rparr>),
       ground_truth_mus := Bound (JInt 1)\<rparr> \<and>
   outcome (load_train_set demo_lib (map_of train_files) demo_data) =
     Inl (FileNotFoundError ''d/test/settings/data.json'') \<and>
   state_after (load_train_set demo_lib (map_of train_files) demo_data) =
     demo_data\<lparr>train_set := Bound (Some
         \<lparr>data = ''ab'', labels = [1, 0], settings = JObj [], weights = [1, 1],
          detailed_labels = [''htautau'', ''ttbar'']\<rparr>)\<rparr>"
proof -
  note missing = load_train_set_atomic_in_train_files
      [where L = demo_lib and files = "map_of train_files_no_weights" and d = demo_data,
       THEN conjunct1]
  note complete = load_train_set_atomic_in_train_files
      [where L = demo_lib and files = "map_of (train_files @ settings_file)" and d = demo_data
         and lc = "''1.0'' @ [CHR 0x0A] @ ''0.0''" and ls = "[1, 0]"
         and sc = "''{}''" and sv = "JObj []"
         and wc = "''1.0'' @ [CHR 0x0A] @ ''1.0''" and ws = "[1, 1]"
         and dc = "''htautau'' @ [CHR 0x0A] @ ''ttbar''"
         and pc = "''PAR1ab''" and frame = "''ab''"
         and tc = "''{mus: 1}''" and kvs = "[(''ground_truth_mus'', JInt 1)]" and g = "JInt 1",
       THEN conjunct2]
  note no_settings = load_train_set_atomic_in_train_files
      [where L = demo_lib and files = "map_of train_files" and d = demo_data
         and lc = "''1.0'' @ [CHR 0x0A] @ ''0.0''" and ls = "[1, 0]"
         and sc = "''{}''" and sv = "JObj []"
         and wc = "''1.0'' @ [CHR 0x0A] @ ''1.0''" and ws = "[1, 1]"
         and dc = "''htautau'' @ [CHR 0x0A] @ ''ttbar''"
         and pc = "''PAR1ab''" and frame = "''ab''"
         and tc = "''{mus: 1}''" and kvs = "[(''ground_truth_mus'', JInt 1)]" and g = "JInt 1",
       THEN conjunct2]
  have a: "isl (outcome (load_train_set demo_lib (map_of train_files_no_weights) demo_data)) \<and>
      state_after (load_train_set demo_lib (map_of train_files_no_weights) demo_data) = demo_data"
    using missing by (simp add: demo_defs demo2_defs Data_init_def)
  have b: "outcome (load_train_set demo_lib (map_of (train_files @ settings_file)) demo_data) =
        Inr () \<and>
      state_after (load_train_set demo_lib (map_of (train_files @ settings_file)) demo_data) =
        demo_data\<lparr>train_set := Bound (Some
           \<lparr>data = ''ab'', labels = [1, 0], settings = JObj [], weights = [1, 1],
            detailed_labels = [''htautau'', ''ttbar'']\<rparr>),
          ground_truth_mus := Bound (JInt 1)\<rparr>"
    using complete
    by (simp add: demo_defs demo2_defs Data_init_def splitlines_def is_linebreak_def)
  have c: "outcome (load_train_set demo_lib (map_of train_files) demo_data) =
        Inl (FileNotFoundError ''d/test/settings/data.json'') \<and>
      state_after (load_train_set demo_lib (map_of train_files) demo_data) =
        demo_data\<lparr>train_set := Bound (Some
           \<lparr>data = ''ab'', labels = [1, 0], settings = JObj [], weights = [1, 1],
            detailed_labels = [''htautau'', ''ttbar'']\<rparr>)\<rparr>"
    using no_settings
    by (simp add: demo_defs demo2_defs Data_init_def splitlines_def is_linebreak_def)
  from a b c show ?thesis by blast
qed

subsection \<open>Claim C2: \<^verbatim>\<open>delete_train_set\<close> called twice\<close>

text \<open>
  C2: \<^verbatim>\<open>delete_train_set\<close> is idempotent. On the code the first call on a fresh manager
  returns normally and removes the attribute; the second call finds no attribute to
  delete and raises AttributeError.
\<close>

theorem delete_train_set_twice_raises:
  "outcome (delete_train_set demo_data) = Inr () \<and>
   outcome (delete_train_set (state_after (delete_train_set demo_data))) =
     Inl (AttributeError ''_Data__train_set'')"
  by (simp add: prog_defs attr_defs method_defs demo_defs)

subsection \<open>Claim C3: \<^verbatim>\<open>generate_psuedo_exp_data\<close> without a test partition\<close>

text \<open>
  C3 (as stated): with the test partition absent, the method raises before any call into
  the collaborator. This fails: on a fresh manager the method calls
  \<^verbatim>\<open>get_bootstraped_dataset\<close>.
\<close>

theorem generate_calls_bootstrap_without_test_set:
  "test_set demo_data = None \<and>
   Bootstrap_call \<in> set (events
     (generate_psuedo_exp_data demo_lib 0 1 (1, 1, 0) (None, None, None) 42 demo_data))"
  by (simp add: prog_defs attr_defs method_defs demo_defs)

text \<open>
  C3 (amended): with the test partition absent, the method reads no file and leaves the
  manager as it is (it never loads the test partition); it has no check of its own and
  passes \<^verbatim>\<open>None\<close> to \<^verbatim>\<open>get_bootstraped_dataset\<close>: an exception there is the outcome of
  the method, and a normal return goes on to \<^verbatim>\<open>get_systematics_dataset\<close>.
\<close>

theorem generate_without_test_set:
  "test_set d = None \<longrightarrow>
   generate_psuedo_exp_data L rng set_mu sh sc seed d =
     (case get_bootstraped_dataset L rng None set_mu sc seed of
        Inl e \<Rightarrow> (Inl e, d, [Bootstrap_call])
      | Inr pseudo \<Rightarrow>
          (get_systematics_dataset L pseudo sh, d, [Bootstrap_call, Systematics_dataset_call]))"
  by (simp add: generate_psuedo_exp_data_def call_bootstrap_def call_systematics_dataset_def
      read_test_attr_def then_do_def ret_def split: sum.splits)

theorem generate_without_test_set_witness:
  "test_set demo_data = None \<and>
   generate_psuedo_exp_data demo_lib 0 1 (1, 1, 0) (None, None, None) 42 demo_data =
     (Inl (CollaboratorError ''NoneType''), demo_data, [Bootstrap_call])"
  using generate_without_test_set
      [where d = demo_data and L = demo_lib and rng = 0 and set_mu = 1 and sh = "(1, 1, 0)"
         and sc = "(None, None, None)" and seed = 42]
  by (simp add: demo_defs Data_init_def)

subsection \<open>Claim C4: the accessors\<close>

text \<open>
  C4: the accessors return the installed partition or the absent value in every state that
  the methods reach, in particular after \<^verbatim>\<open>delete_train_set\<close>. On the code
  \<^verbatim>\<open>get_train_set\<close> after \<^verbatim>\<open>delete_train_set\<close> raises AttributeError: the attribute it
  reads has been removed.
\<close>

theorem get_train_set_after_delete_raises:
  "outcome (get_train_set (state_after (delete_train_set demo_data))) =
     Inl (AttributeError ''_Data__train_set'')"
  by (simp add: prog_defs attr_defs method_defs demo_defs)

subsection \<open>Claim C5: the implicit load of \<^verbatim>\<open>get_syst_train_set\<close>\<close>

text \<open>
  C5: \<^verbatim>\<open>get_syst_train_set\<close> loads the train partition once when it is absent, also
  immediately after \<^verbatim>\<open>delete_train_set\<close>. On the code the test
  \<^verbatim>\<open>self.__train_set is None\<close> after \<^verbatim>\<open>delete_train_set\<close> raises AttributeError
  before any file is read and before \<^verbatim>\<open>systematics\<close> is called, although the directory
  holds every file that a load needs.
\<close>

theorem get_syst_train_set_after_delete_raises:
  "outcome (get_syst_train_set demo_lib (map_of (train_files @ settings_file))
              (1, 1, 0) (None, None, None) (state_after (delete_train_set demo_data))) =
     Inl (AttributeError ''_Data__train_set'') \<and>
   events (get_syst_train_set demo_lib (map_of (train_files @ settings_file))
              (1, 1, 0) (None, None, None) (state_after (delete_train_set demo_data))) = []"
  by (simp add: prog_defs attr_defs method_defs demo_defs)

subsection \<open>Claim C6: \<^verbatim>\<open>load_test_set\<close> and missing files\<close>

text \<open>
  C6 (as stated): a directory that lacks one of the four test files makes
  \<^verbatim>\<open>load_test_set\<close> fail with a missing-file error. This fails where an earlier file of
  the loop is present and is not a parquet file: with an unreadable
  \<^verbatim>\<open>ztautau_data.parquet\<close> and no \<^verbatim>\<open>diboson_data.parquet\<close> the error is the parse
  error of the first file.
\<close>

theorem load_test_set_other_error_first:
  "map_of bad_test_files (test_data_path (input_dir demo_data) ''diboson'') = None \<and>
   outcome (load_test_set demo_lib (map_of bad_test_files) demo_data) =
     Inl (ArrowInvalid ''d/test/data/ztautau_data.parquet'')"
  by (simp add: prog_defs attr_defs path_defs read_defs method_defs demo_defs)

text \<open>
  C6 (amended): the files are read in the order ztautau, diboson, ttbar, htautau. If the
  file of the \<open>i\<close>-th key is the first that cannot be read, with error \<open>e\<close> (the
  missing-file error for an absent file, the parse error for one that is not parquet), the
  call raises \<open>e\<close> and leaves the manager, with any test partition installed before, as it
  was. A directory that lacks one of the four files therefore always makes the call fail
  with the state unchanged. If all four files are read, the call installs a dictionary with
  exactly the four keys, each bound to the frame of its file.
\<close>

theorem load_test_set_first_unreadable_file:
  "(i < length test_keys \<and>
    read_frame L files (test_data_path (input_dir d) (test_keys ! i)) = Inl e \<and>
    (\<forall>j<i. \<not> isl (read_frame L files (test_data_path (input_dir d) (test_keys ! j)))) \<longrightarrow>
      outcome (load_test_set L files d) = Inl e \<and>
      state_after (load_test_set L files d) = d) \<and>
   ((\<exists>key\<in>set test_keys. files (test_data_path (input_dir d) key) = None) \<longrightarrow>
      isl (outcome (load_test_set L files d)) \<and>
      state_after (load_test_set L files d) = d) \<and>
   ((\<forall>key\<in>set test_keys.
       read_frame L files (test_data_path (input_dir d) key) = Inr (fr key)) \<longrightarrow>
      outcome (load_test_set L files d) = Inr () \<and>
      state_after (load_test_set L files d) =
        d\<lparr>test_set := Some (map (\<lambda>key. (key, fr key)) test_keys)\<rparr>)"
proof (intro conjI impI)
  assume a: "i < length test_keys \<and>
    read_frame L files (test_data_path (input_dir d) (test_keys ! i)) = Inl e \<and>
    (\<forall>j<i. \<not> isl (read_frame L files (test_data_path (input_dir d) (test_keys ! j))))"
  then have "outcome (load_test_set L files d) = Inl e \<and> state_after (load_test_set L files d) = d"
    using load_test_set_fails[of i L files d e] by blast
  then show "outcome (load_test_set L files d) = Inl e"
    and "state_after (load_test_set L files d) = d" by simp_all
next
  assume "\<exists>key\<in>set test_keys. files (test_data_path (input_dir d) key) = None"
  then obtain key where "key \<in> set test_keys" "files (test_data_path (input_dir d) key) = None"
    by blast
  then have "key \<in> set test_keys \<and> isl (read_frame L files (test_data_path (input_dir d) key))"
    by (simp add: read_frame_def)
  then have "\<exists>key\<in>set test_keys. isl (read_frame L files (test_data_path (input_dir d) key))"
    by blast
  from first_failure[OF this] obtain k where k: "k < length test_keys"
    "isl (read_frame L files (test_data_path (input_dir d) (test_keys ! k)))"
    "\<forall>j<k. \<not> isl (read_frame L files (test_data_path (input_dir d) (test_keys ! j)))"
    by blast
  from k(2) obtain e' where
    "read_frame L files (test_data_path (input_dir d) (test_keys ! k)) = Inl e'"
    by (cases "read_frame L files (test_data_path (input_dir d) (test_keys ! k))") auto
  with k(1,3) have "outcome (load_test_set L files d) = Inl e' \<and>
      state_after (load_test_set L files d) = d"
    using load_test_set_fails[of k L files d e'] by blast
  then show "isl (outcome (load_test_set L files d))"
    and "state_after (load_test_set L files d) = d" by simp_all
next
  assume "\<forall>key\<in>set test_keys.
       read_frame L files (test_data_path (input_dir d) key) = Inr (fr key)"
  then have "outcome (load_test_set L files d) = Inr () \<and>
         state_after (load_test_set L files d) =
           d\<lparr>test_set := Some (map (\<lambda>key. (key, fr key)) test_keys)\<rparr>"
    by (rule load_test_set_ok)
  then show "outcome (load_test_set L files d) = Inr ()"
    and "state_after (load_test_set L files d) =
           d\<lparr>test_set := Some (map (\<lambda>key. (key, fr key)) test_keys)\<rparr>" by simp_all
qed

theorem load_test_set_first_unreadable_file_witness:
  "outcome (load_test_set demo_lib (map_of (tl test_files)) demo_data) =
     Inl (FileNotFoundError ''d/test/data/ztautau_data.parquet'') \<and>
   state_after (load_test_set demo_lib (map_of (tl test_files)) demo_data) = demo_data \<and>
   outcome (load_test_set demo_lib (map_of test_files) demo_data) = Inr () \<and>
   state_after (load_test_set demo_lib (map_of test_files) demo_data) =
     demo_data\<lparr>test_set := Some [(''ztautau'', ''z''), (''diboson'', ''d''),
                                   (''ttbar'', ''t''), (''htautau'', ''h'')]\<rparr>"
  using load_test_set_first_unreadable_file
      [where L = demo_lib and files = "map_of (tl test_files)" and d = demo_data and i = 0
         and e = "FileNotFoundError ''d/test/data/ztautau_data.parquet''" and fr = "take 1"]
    load_test_set_first_unreadable_file
      [where L = demo_lib and files = "map_of test_files" and d = demo_data and i = 0
         and e = "FileNotFoundError ''d/test/data/ztautau_data.parquet''" and fr = "take 1"]
  by (simp add: path_defs read_frame_def demo_defs Data_init_def)

subsection \<open>Claim C7: the cached ground-truth parameters\<close>

text \<open>
  C7: when \<^verbatim>\<open>load_train_set\<close> returns normally, the file
  \<^verbatim>\<open>test/settings/data.json\<close> under the input directory exists at the time of the call
  and parses to a dictionary, and the cached \<^verbatim>\<open>ground_truth_mus\<close> is the value bound to
  the key \<^verbatim>\<open>ground_truth_mus\<close> in it. This holds in every state of the manager; the
  cached value is the same when \<^verbatim>\<open>load_test_set\<close>, on any file system, is called after
  the load, and the same when it is called before the load.
\<close>

theorem load_train_set_ground_truth_mus:
  fixes L :: "('t, 'n, 'r) lib" and d :: "('t, 'n) Data"
  defines "root \<equiv>
     (if input_dir d = [] \<or> last (input_dir d) = CHR ''/'' then input_dir d
      else input_dir d @ ''/'')"
  assumes "outcome (load_train_set L files d) = Inr ()"
  shows "\<exists>content kvs g.
           files (root @ ''test/settings/data.json'') = Some content \<and>
           json_loads L content = Some (JObj kvs) \<and>
           map_of kvs ''ground_truth_mus'' = Some g \<and>
           ground_truth_mus (state_after (load_train_set L files d)) = Bound g \<and>
           ground_truth_mus (state_after (load_test_set L files'
              (state_after (load_train_set L files d)))) = Bound g \<and>
           ground_truth_mus (state_after (load_train_set L files
              (state_after (load_test_set L files' d)))) = Bound g"
proof -
  have path: "test_settings_file (input_dir d) = root @ ''test/settings/data.json''"
    unfolding root_def by (simp only: train_paths)
  from load_train_set_returns[OF assms(2)] obtain t g where
    g: "outcome (read_ground_truth L files (input_dir d) d) = Inr g" and
    st: "state_after (load_train_set L files d) =
           d\<lparr>train_set := Bound (Some t), ground_truth_mus := Bound g\<rparr>"
    by blast
  from g obtain content v where found:
    "files (root @ ''test/settings/data.json'') = Some content"
    "json_loads L content = Some v" "getitem v ''ground_truth_mus'' = Inr g"
    unfolding read_ground_truth_outcome path by (auto split: option.splits)
  from found(3) obtain kvs where kvs: "v = JObj kvs" "map_of kvs ''ground_truth_mus'' = Some g"
    unfolding getitem_Inr by blast
  have now: "ground_truth_mus (state_after (load_train_set L files d)) = Bound g"
    by (simp add: st)
  have after: "ground_truth_mus (state_after (load_test_set L files'
      (state_after (load_train_set L files d)))) = Bound g"
    by (simp add: load_test_set_frame now)
  have "input_dir (state_after (load_test_set L files' d)) = input_dir d"
    by (simp add: load_test_set_frame)
  from load_train_set_same_input_dir[OF this assms(2)] now
  have before: "ground_truth_mus (state_after (load_train_set L files
      (state_after (load_test_set L files' d)))) = Bound g"
    by simp
  from found(1,2) kvs now after before show ?thesis by blast
qed

theorem load_train_set_ground_truth_mus_witness:
  "ground_truth_mus (state_after
     (load_train_set settings_lib (map_of two_dirs) (Data_init ''d''))) = Bound (JInt 1) \<and>
   ground_truth_mus (state_after
     (load_train_set settings_lib (map_of two_dirs) (Data_init ''e/''))) = Bound (JInt 2) \<and>
   ground_truth_mus (state_after (load_test_set settings_lib (map_of test_files)
     (state_after (load_train_set settings_lib (map_of two_dirs) (Data_init ''d''))))) =
     Bound (JInt 1) \<and>
   ground_truth_mus (state_after (load_train_set settings_lib (map_of two_dirs)
     (state_after (load_test_set settings_lib (map_of test_files) (Data_init ''d''))))) =
     Bound (JInt 1)"
proof -
  have ok_d: "outcome (load_train_set settings_lib (map_of two_dirs)
      (Data_init ''d'' :: (string, int) Data)) = Inr ()"
    by (simp add: prog_defs attr_defs path_defs read_defs method_defs demo_defs demo2_defs)
  have ok_e: "outcome (load_train_set settings_lib (map_of two_dirs)
      (Data_init ''e/'' :: (string, int) Data)) = Inr ()"
    by (simp add: prog_defs attr_defs path_defs read_defs method_defs demo_defs demo2_defs)
  from load_train_set_ground_truth_mus[OF ok_d, of "map_of test_files"]
  have d: "ground_truth_mus (state_after
       (load_train_set settings_lib (map_of two_dirs) (Data_init ''d''))) = Bound (JInt 1) \<and>
     ground_truth_mus (state_after (load_test_set settings_lib (map_of test_files)
       (state_after (load_train_set settings_lib (map_of two_dirs) (Data_init ''d''))))) =
       Bound (JInt 1) \<and>
     ground_truth_mus (state_after (load_train_set settings_lib (map_of two_dirs)
       (state_after (load_test_set settings_lib (map_of test_files) (Data_init ''d''))))) =
       Bound (JInt 1)"
    by (auto simp: demo_defs demo2_defs Data_init_def split: if_splits)
  from load_train_set_ground_truth_mus[OF ok_e, of "map_of test_files"]
  have e: "ground_truth_mus (state_after
       (load_train_set settings_lib (map_of two_dirs) (Data_init ''e/''))) = Bound (JInt 2)"
    by (auto simp: demo_defs demo2_defs Data_init_def split: if_splits)
  from d e show ?thesis by blast
qed

subsection \<open>Claim C8: \<^verbatim>\<open>generate_psuedo_exp_data\<close> changes no state\<close>

text \<open>
  C8: with a test partition \<open>t\<close> loaded, and a bootstrap step that does not change the
  dictionary it is given, the manager after \<^verbatim>\<open>generate_psuedo_exp_data\<close> is the manager
  before it, for every parameter tuple; so a further call, with any other parameters, runs
  as it would have run in the first place.
\<close>

theorem generate_psuedo_exp_data_frame:
  assumes "test_set d = Some t"
    and "bootstrap_leaves L rng t set_mu sc seed = t"
  shows "state_after (generate_psuedo_exp_data L rng set_mu sh sc seed d) = d \<and>
         generate_psuedo_exp_data L rng' set_mu' sh' sc' seed'
           (state_after (generate_psuedo_exp_data L rng set_mu sh sc seed d)) =
         generate_psuedo_exp_data L rng' set_mu' sh' sc' seed' d"
proof -
  have "d\<lparr>test_set := Some t\<rparr> = d" using assms(1) by (cases d) simp
  with assms have "state_after (generate_psuedo_exp_data L rng set_mu sh sc seed d) = d"
    by (simp add: generate_psuedo_exp_data_def call_bootstrap_def call_systematics_dataset_def
        read_test_attr_def then_do_def ret_def state_after_def split: sum.splits)
  then show ?thesis by simp
qed

theorem generate_psuedo_exp_data_frame_witness:
  "state_after (generate_psuedo_exp_data demo_lib 0 1 (1, 1, 0) (None, None, None) 42
     (state_after (load_test_set demo_lib (map_of test_files) demo_data))) =
   state_after (load_test_set demo_lib (map_of test_files) demo_data)"
proof -
  have st: "state_after (load_test_set demo_lib (map_of test_files) demo_data) =
      demo_data\<lparr>test_set := Some [(''ztautau'', ''z''), (''diboson'', ''d''),
                                    (''ttbar'', ''t''), (''htautau'', ''h'')]\<rparr>"
    by (simp add: prog_defs attr_defs path_defs read_defs method_defs demo_defs)
  have a: "test_set (state_after (load_test_set demo_lib (map_of test_files) demo_data)) =
      Some [(''ztautau'', ''z''), (''diboson'', ''d''), (''ttbar'', ''t''), (''htautau'', ''h'')]"
    by (simp add: st)
  have b: "bootstrap_leaves demo_lib 0
      [(''ztautau'', ''z''), (''diboson'', ''d''), (''ttbar'', ''t''), (''htautau'', ''h'')]
      1 (None, None, None) 42 =
      [(''ztautau'', ''z''), (''diboson'', ''d''), (''ttbar'', ''t''), (''htautau'', ''h'')]"
    by (simp add: demo_lib_def)
  from generate_psuedo_exp_data_frame[OF a b, of "(1, 1, 0)"] show ?thesis by simp
qed

subsection \<open>Claim C9: determinism in the seed\<close>

text \<open>
  C9: if the bootstrap step keeps its contract, that its result depends on its arguments
  (with the seed) and not on the state of the random number generator it meets, then two
  invocations of \<^verbatim>\<open>generate_psuedo_exp_data\<close> with the same parameter tuple, on managers
  that store the same test partition, have the same outcome, whatever the generator state
  at each of them.
\<close>

theorem generate_psuedo_exp_data_deterministic:
  assumes "\<forall>r r' arg. get_bootstraped_dataset L r arg set_mu sc seed =
                       get_bootstraped_dataset L r' arg set_mu sc seed"
    and "test_set d = test_set d'"
  shows "outcome (generate_psuedo_exp_data L rng set_mu sh sc seed d) =
         outcome (generate_psuedo_exp_data L rng' set_mu sh sc seed d')"
proof -
  from assms(1) have "get_bootstraped_dataset L rng (test_set d') set_mu sc seed =
      get_bootstraped_dataset L rng' (test_set d') set_mu sc seed"
    by blast
  with assms(2) show ?thesis
    by (simp add: generate_psuedo_exp_data_def call_bootstrap_def call_systematics_dataset_def
        read_test_attr_def then_do_def ret_def outcome_def split: sum.splits)
qed

theorem generate_psuedo_exp_data_deterministic_witness:
  "outcome (generate_psuedo_exp_data demo_lib 7 1 (1, 1, 0) (None, None, None) 42
     (state_after (load_test_set demo_lib (map_of test_files) demo_data))) =
   outcome (generate_psuedo_exp_data demo_lib 8 1 (1, 1, 0) (None, None, None) 42
     (state_after (generate_psuedo_exp_data demo_lib 7 1 (1, 1, 0) (None, None, None) 42
        (state_after (load_test_set demo_lib (map_of test_files) demo_data)))))"
proof -
  have contract: "\<forall>r r' arg. get_bootstraped_dataset demo_lib r arg 1 (None, None, None) 42 =
      get_bootstraped_dataset demo_lib r' arg 1 (None, None, None) 42"
    by (simp add: demo_lib_def)
  have same: "test_set (state_after (load_test_set demo_lib (map_of test_files) demo_data)) =
      test_set (state_after (generate_psuedo_exp_data demo_lib 7 1 (1, 1, 0) (None, None, None) 42
        (state_after (load_test_set demo_lib (map_of test_files) demo_data))))"
    by (simp add: prog_defs attr_defs path_defs read_defs method_defs demo_defs)
  from generate_psuedo_exp_data_deterministic[OF contract same] show ?thesis .
qed

subsection \<open>Claim C10: the manager after construction\<close>

text \<open>
  C10: the constructor is a total function of the path and has no effect. On the manager
  it returns, both accessors return \<^verbatim>\<open>None\<close> without any effect and there is no
  attribute \<^verbatim>\<open>ground_truth_mus\<close>; the attribute stays absent through every sequence of
  calls in which no \<^verbatim>\<open>load_train_set\<close> has returned normally. A directory that does not
  exist shows only when a load is called, which then raises the missing-file error of the
  first file it opens.
\<close>

theorem Data_init_absent:
  "get_train_set (Data_init dir :: ('t, 'n) Data) = (Inr None, Data_init dir, []) \<and>
   get_test_set (Data_init dir :: ('t, 'n) Data) = (Inr None, Data_init dir, []) \<and>
   ground_truth_mus (Data_init dir :: ('t, 'n) Data) = Unset \<and>
   (no_train_load (L :: ('t, 'n, 'r) lib) cs (Data_init dir) \<longrightarrow>
      ground_truth_mus (run L cs (Data_init dir)) = Unset) \<and>
   outcome (load_train_set L Map.empty (Data_init dir)) =
     Inl (FileNotFoundError (train_labels_file dir)) \<and>
   outcome (load_test_set L Map.empty (Data_init dir)) =
     Inl (FileNotFoundError (test_data_path dir ''ztautau''))"
proof (intro conjI impI)
  show "get_train_set (Data_init dir :: ('t, 'n) Data) = (Inr None, Data_init dir, [])"
    by (simp add: get_train_set_def read_train_attr_def ret_def Data_init_def)
  show "get_test_set (Data_init dir :: ('t, 'n) Data) = (Inr None, Data_init dir, [])"
    by (simp add: get_test_set_def read_test_attr_def ret_def Data_init_def)
  show "ground_truth_mus (Data_init dir :: ('t, 'n) Data) = Unset"
    by (simp add: Data_init_def)
  show "ground_truth_mus (run L cs (Data_init dir)) = Unset"
    if "no_train_load L cs (Data_init dir)"
    using run_keeps_mus[OF that] by (simp add: Data_init_def)
  show "outcome (load_train_set L Map.empty (Data_init dir)) =
     Inl (FileNotFoundError (train_labels_file dir))"
    by (simp add: load_train_set_def read_train_dict_def read_float_lines_def open_read_def
        read_input_dir_def Data_init_def prog_defs)
  show "outcome (load_test_set L Map.empty (Data_init dir)) =
     Inl (FileNotFoundError (test_data_path dir ''ztautau''))"
    by (simp add: load_test_set_def test_keys_def test_data_path_def read_parquet_def
        read_frame_def read_input_dir_def Data_init_def prog_defs)
qed

theorem Data_init_absent_witness:
  "no_train_load demo_lib
     [Load_test (map_of test_files), Load_train (map_of train_files),
      Get_syst_train Map.empty (1, 1, 0) (None, None, None), Delete_train, Get_train]
     (Data_init ''d'') \<and>
   ground_truth_mus (run demo_lib
     [Load_test (map_of test_files), Load_train (map_of train_files),
      Get_syst_train Map.empty (1, 1, 0) (None, None, None), Delete_train, Get_train]
     (Data_init ''d'')) = Unset"
proof -
  have "no_train_load demo_lib
     [Load_test (map_of test_files), Load_train (map_of train_files),
      Get_syst_train Map.empty (1, 1, 0) (None, None, None), Delete_train, Get_train]
     (Data_init ''d'')"
    by (simp add: prog_defs attr_defs path_defs read_defs method_defs demo_defs)
  with Data_init_absent[where L = demo_lib and dir = "''d''" and cs =
      "[Load_test (map_of test_files), Load_train (map_of train_files),
        Get_syst_train Map.empty (1, 1, 0) (None, None, None), Delete_train, Get_train]"]
  show ?thesis by blast
qed

end
